theory Spec2Isabelle
  imports Complex_Main "HOL-Library.AList" "HOL-Library.Sublist"
begin

section \<open>Values of the rendering engine\<close>

text \<open>
  The scene service is written against a third-party 3D engine. Only the values the
  service itself reads and writes are modelled. A JavaScript number is a \<open>real\<close>
  (rounding is not modelled).

  A colour is the hex number handed to \<^verbatim>\<open>Color.set\<close> or, for \<^verbatim>\<open>Color.set(string)\<close>,
  what that call makes of the colour there was: \<open>Styled str prior\<close>. The engine sets the
  colour it reads from the string; a string it cannot read leaves the colour as it was
  (with a warning). Which strings the engine reads, and as what, is the engine's own; it
  is the parameter \<open>reads\<close> of \<open>colourValue\<close>, which gives the hex value of a colour.
\<close>

type_synonym Vector3 = "real \<times> real \<times> real"

datatype Color = Hex nat | Styled string Color

fun colourValue :: "(string \<Rightarrow> nat option) \<Rightarrow> Color \<Rightarrow> nat" where
  "colourValue reads (Hex h) = h"
| "colourValue reads (Styled str prior) =
     (case reads str of Some h \<Rightarrow> h | None \<Rightarrow> colourValue reads prior)"

definition subVectors :: "Vector3 \<Rightarrow> Vector3 \<Rightarrow> Vector3" where
  "subVectors a b =
     (case a of (ax, ay, az) \<Rightarrow> case b of (bx, by, bz) \<Rightarrow> (ax - bx, ay - by, az - bz))"

definition addVector :: "Vector3 \<Rightarrow> Vector3 \<Rightarrow> Vector3" where
  "addVector a b =
     (case a of (ax, ay, az) \<Rightarrow> case b of (bx, by, bz) \<Rightarrow> (ax + bx, ay + by, az + bz))"

definition multiplyScalar :: "Vector3 \<Rightarrow> real \<Rightarrow> Vector3" where
  "multiplyScalar v k = (case v of (vx, vy, vz) \<Rightarrow> (vx * k, vy * k, vz * k))"

definition vlength :: "Vector3 \<Rightarrow> real" where
  "vlength v = (case v of (vx, vy, vz) \<Rightarrow> sqrt (vx * vx + vy * vy + vz * vz))"

definition normalize :: "Vector3 \<Rightarrow> Vector3" where
  "normalize v = (let l = vlength v in multiplyScalar v (1 / (if l = 0 then 1 else l)))"

record MeshStandardMaterial =
  color :: Color
  emissive :: Color

section \<open>Strings\<close>

fun startsWith :: "string \<Rightarrow> string \<Rightarrow> bool" where
  "startsWith s [] = True"
| "startsWith [] (p # ps) = False"
| "startsWith (c # cs) (p # ps) = (c = p \<and> startsWith cs ps)"

definition endsWith :: "string \<Rightarrow> string \<Rightarrow> bool" where
  "endsWith s suf = startsWith (rev s) (rev suf)"

text \<open>\<^verbatim>\<open>s.replace(pat, rep)\<close> with a string pattern: the first occurrence only.\<close>

fun replace :: "string \<Rightarrow> string \<Rightarrow> string \<Rightarrow> string" where
  "replace [] pat rep = (if pat = [] then rep else [])"
| "replace (c # cs) pat rep =
     (if startsWith (c # cs) pat then rep @ drop (length pat) (c # cs)
      else c # replace cs pat rep)"

section \<open>The scene service: data\<close>

text \<open>
  \<^verbatim>\<open>PortInfo.mesh\<close> is represented by the mesh's own material (each indicator gets a
  clone when the model is loaded). Optional fields are options. JavaScript objects used as
  dictionaries are association lists in insertion order, read with \<open>map_of\<close> and
  written with \<open>AList.update\<close> and \<open>AList.delete\<close>. Console output is not part of the
  state.

  A read \<^verbatim>\<open>obj[name]\<close> also finds the members that every object inherits, all of them
  truthy. \<open>getMember\<close> is such a read. It is used where the code only tests the value
  (picking, the test for an id already loaded) and in \<open>setPortState\<close>, where using an
  inherited member as a model or a port raises a \<^verbatim>\<open>TypeError\<close>. The other operations
  read with \<open>map_of\<close>. For \<open>disconnectCable\<close> and \<open>connectCable\<close> the state is the
  same: an inherited member taken for a cable, a model or an attach point changes nothing
  (the call does nothing, raises before the \<^verbatim>\<open>await\<close>, or fails inside the \<^verbatim>\<open>try\<close>
  before anything is added). In \<open>removeModelFromScene\<close>, \<open>updateCableVisualsForPort\<close> and
  the cable loop of \<open>updateScene\<close> the names of models, ports and attach points are taken
  not to be names of inherited members; there the code raises on such a name.
\<close>

datatype error = TypeError

datatype 'a member = Own 'a | Inherited | Missing

definition inheritedMembers :: "string list" where
  "inheritedMembers =
     [''constructor'', ''__defineGetter__'', ''__defineSetter__'', ''hasOwnProperty'',
      ''__lookupGetter__'', ''__lookupSetter__'', ''isPrototypeOf'', ''propertyIsEnumerable'',
      ''toString'', ''valueOf'', ''__proto__'', ''toLocaleString'']"

definition getMember :: "(string \<times> 'a) list \<Rightarrow> string \<Rightarrow> 'a member" where
  "getMember obj name =
     (case map_of obj name of
        Some v \<Rightarrow> Own v
      | None \<Rightarrow> if name \<in> set inheritedMembers then Inherited else Missing)"

definition hasMember :: "(string \<times> 'a) list \<Rightarrow> string \<Rightarrow> bool" where
  "hasMember obj name = (getMember obj name \<noteq> Missing)"

record PortInfo =
  mesh :: MeshStandardMaterial
  originalColor :: Color
  originalEmissive :: Color
  blinking :: "bool option"
  blinkOn :: "bool option"
  lastBlinkTime :: "int option"
  currentState :: "string option"

text \<open>An attach point is an engine object; \<open>worldPosition\<close> is what
  \<^verbatim>\<open>getWorldPosition\<close> returns for it.\<close>

record AttachPoint =
  worldPosition :: Vector3

record LoadedModel =
  id_lm :: string
  object_lm :: nat
  portIndicators :: "(string \<times> PortInfo) list"
  portAttachPoints :: "(string \<times> AttachPoint) list"

record Endpoint =
  modelId :: string
  portAttachName :: string

text \<open>The cylinder mesh of a cable: \<open>height\<close> is the geometry's height, \<open>axis\<close> the
  unit vector its quaternion is set from.\<close>

record CableMesh =
  meshId :: nat
  meshName :: string
  height :: real
  position :: Vector3
  axis :: Vector3
  material :: MeshStandardMaterial

record CableInfo =
  id_ci :: string
  object_ci :: CableMesh
  source :: Endpoint
  target :: Endpoint

text \<open>Children of the scene, each with the identity of the engine object (a number
  allocated from \<open>nextObject\<close>) and its name.\<close>

type_synonym Vector3D = "real \<times> real \<times> real"

type_synonym EulerRotation = "real \<times> real \<times> real \<times> string option"

datatype SceneObject =
    Light nat
  | ModelRoot nat string "Vector3D option" "EulerRotation option"
  | CableObject nat string

fun objectId :: "SceneObject \<Rightarrow> nat" where
  "objectId (Light i) = i"
| "objectId (ModelRoot i n p r) = i"
| "objectId (CableObject i n) = i"

fun isModelRootNamed :: "string \<Rightarrow> SceneObject \<Rightarrow> bool" where
  "isModelRootNamed n (ModelRoot i m p r) = (m = n)"
| "isModelRootNamed n (Light i) = False"
| "isModelRootNamed n (CableObject i m) = False"

record ThreeSceneService =
  scene :: "SceneObject list"
  loadedModels :: "(string \<times> LoadedModel) list"
  cables :: "(string \<times> CableInfo) list"
  nextObject :: nat

datatype ObjectType = Port | Device

record SelectedObjectInfo =
  modelId_sel :: string
  objectName :: string
  objectType :: ObjectType

definition BLINK_INTERVAL :: int where
  "BLINK_INTERVAL = 500"

text \<open>What \<^verbatim>\<open>loader.loadAsync\<close> resolves to: the nodes below \<^verbatim>\<open>gltf.scene\<close> in the
  order \<^verbatim>\<open>traverse\<close> visits them, and the world position of the root. A node that is
  a \<^verbatim>\<open>Mesh\<close> carries its material: a standard material with colour and emissive, or
  \<open>OtherMaterial\<close>, a material (or an array of materials) without a \<^verbatim>\<open>clone\<close>, a
  \<^verbatim>\<open>color\<close> or an \<^verbatim>\<open>emissive\<close> to clone. \<open>nodeWorldPosition\<close> is the node's world
  position once the root is placed. A rejected load is \<open>None\<close>.\<close>

datatype NodeMaterial = Standard MeshStandardMaterial | OtherMaterial

record GltfNode =
  nodeName :: string
  nodeMesh :: "NodeMaterial option"
  nodeWorldPosition :: Vector3

record Gltf =
  rootWorldPosition :: Vector3
  descendants :: "GltfNode list"

section \<open>The scene service: operations\<close>

definition initScene :: "ThreeSceneService \<Rightarrow> ThreeSceneService" where
  "initScene s =
     s\<lparr>scene := [Light (nextObject s), Light (nextObject s + 1)],
       nextObject := nextObject s + 2\<rparr>"

definition sceneRemove :: "nat \<Rightarrow> SceneObject list \<Rightarrow> SceneObject list" where
  "sceneRemove i objs = filter (\<lambda>obj. objectId obj \<noteq> i) objs"

definition cableColorFor :: "string option \<Rightarrow> Color" where
  "cableColorFor st =
     (if st = Some ''active'' then Hex 0x00aa00
      else if st = Some ''inactive'' then Hex 0x505050
      else if st = Some ''error'' then Hex 0xaa0000
      else Hex 0x505050)"

definition updateCableVisual ::
  "(string \<times> LoadedModel) list \<Rightarrow> string \<Rightarrow> string \<Rightarrow> CableInfo \<Rightarrow> CableInfo" where
  "updateCableVisual loaded modelInstanceId portIndicatorName cable =
     (if (modelId (source cable) = modelInstanceId \<and>
          startsWith (portAttachName (source cable)) (replace portIndicatorName ''_Indicator'' ''''))
         \<or> (modelId (target cable) = modelInstanceId \<and>
          startsWith (portAttachName (target cable)) (replace portIndicatorName ''_Indicator'' ''''))
      then (case map_of loaded modelInstanceId of
              None \<Rightarrow> cable
            | Some modelData \<Rightarrow>
                (case map_of (portIndicators modelData) portIndicatorName of
                   None \<Rightarrow> cable
                 | Some portInfo \<Rightarrow>
                     cable\<lparr>object_ci := (object_ci cable)
                       \<lparr>material := (material (object_ci cable))
                          \<lparr>color := cableColorFor (currentState portInfo)\<rparr>\<rparr>\<rparr>))
      else cable)"

definition updateCableVisualsForPort ::
  "string \<Rightarrow> string \<Rightarrow> ThreeSceneService \<Rightarrow> ThreeSceneService" where
  "updateCableVisualsForPort modelInstanceId portIndicatorName s =
     s\<lparr>cables := map (\<lambda>(cableId, cable).
            (cableId, updateCableVisual (loadedModels s) modelInstanceId portIndicatorName cable))
          (cables s)\<rparr>"

definition applyPortState :: "string \<Rightarrow> bool \<Rightarrow> PortInfo \<Rightarrow> PortInfo" where
  "applyPortState state blnk portInfo =
     (let p = portInfo\<lparr>blinking := Some blnk, currentState := Some state\<rparr> in
      if state = ''active'' then
        p\<lparr>mesh := (mesh p)\<lparr>color := Hex 0x00ff00,
                              emissive := Hex (if blnk then 0x003300 else 0x008800)\<rparr>\<rparr>
      else if state = ''inactive'' then
        p\<lparr>mesh := (mesh p)\<lparr>color := Hex 0x808080, emissive := Hex 0x000000\<rparr>,
          blinking := Some False\<rparr>
      else if state = ''error'' then
        p\<lparr>mesh := (mesh p)\<lparr>color := Hex 0xff0000,
                              emissive := Hex (if blnk then 0x330000 else 0x880000)\<rparr>\<rparr>
      else
        p\<lparr>mesh := (mesh p)\<lparr>color := Styled state (color (mesh p)),
                              emissive := Hex 0x000000\<rparr>\<rparr>)"

text \<open>\<open>Inl TypeError\<close>: the call raised before it changed anything (an inherited member
  taken for the model has no \<^verbatim>\<open>portIndicators\<close>, one taken for the port no \<^verbatim>\<open>mesh\<close>).\<close>

definition setPortState ::
  "string \<Rightarrow> string \<Rightarrow> string \<Rightarrow> bool \<Rightarrow> ThreeSceneService
     \<Rightarrow> error + ThreeSceneService" where
  "setPortState modelInstanceId portName state blnk s =
     (case getMember (loadedModels s) modelInstanceId of
        Missing \<Rightarrow> Inr s
      | Inherited \<Rightarrow> Inl TypeError
      | Own modelData \<Rightarrow>
          (case getMember (portIndicators modelData) portName of
             Missing \<Rightarrow> Inr s
           | Inherited \<Rightarrow> Inl TypeError
           | Own portInfo \<Rightarrow>
               Inr (updateCableVisualsForPort modelInstanceId portName
                 (s\<lparr>loadedModels :=
                      AList.update modelInstanceId
                        (modelData\<lparr>portIndicators :=
                           AList.update portName (applyPortState state blnk portInfo)
                             (portIndicators modelData)\<rparr>)
                        (loadedModels s)\<rparr>))))"


definition updateBlinkingPort :: "int \<Rightarrow> PortInfo \<Rightarrow> PortInfo" where
  "updateBlinkingPort currentTime portInfo =
     (if blinking portInfo = Some True then
        (if (case lastBlinkTime portInfo of
               None \<Rightarrow> True
             | Some t \<Rightarrow> t = 0 \<or> currentTime - t > BLINK_INTERVAL) then
           (let on = (case blinkOn portInfo of None \<Rightarrow> True | Some b \<Rightarrow> \<not> b);
                p = portInfo\<lparr>lastBlinkTime := Some currentTime, blinkOn := Some on\<rparr>
            in if on then
                 (if currentState p = Some ''active'' then
                    p\<lparr>mesh := (mesh p)\<lparr>emissive := Hex 0x00ff00\<rparr>\<rparr>
                  else if currentState p = Some ''error'' then
                    p\<lparr>mesh := (mesh p)\<lparr>emissive := Hex 0xff0000\<rparr>\<rparr>
                  else p)
               else
                 (if currentState p = Some ''active'' then
                    p\<lparr>mesh := (mesh p)\<lparr>emissive := Hex 0x003300\<rparr>\<rparr>
                  else if currentState p = Some ''error'' then
                    p\<lparr>mesh := (mesh p)\<lparr>emissive := Hex 0x330000\<rparr>\<rparr>
                  else p))
         else portInfo)
      else portInfo)"

definition updateBlinkingPorts :: "int \<Rightarrow> ThreeSceneService \<Rightarrow> ThreeSceneService" where
  "updateBlinkingPorts currentTime s =
     s\<lparr>loadedModels := map (\<lambda>(mid, modelData).
          (mid, modelData\<lparr>portIndicators := map (\<lambda>(portName, portInfo).
                  (portName, updateBlinkingPort currentTime portInfo))
                (portIndicators modelData)\<rparr>))
        (loadedModels s)\<rparr>"

definition attachPointOf ::
  "(string \<times> LoadedModel) list \<Rightarrow> Endpoint \<Rightarrow> AttachPoint option" where
  "attachPointOf loaded e =
     (case map_of loaded (modelId e) of
        None \<Rightarrow> None
      | Some modelData \<Rightarrow> map_of (portAttachPoints modelData) (portAttachName e))"

definition updateCablePosition ::
  "(string \<times> LoadedModel) list \<Rightarrow> CableInfo \<Rightarrow> CableInfo" where
  "updateCablePosition loaded cableInfo =
     (case attachPointOf loaded (source cableInfo) of
        None \<Rightarrow> cableInfo
      | Some sourceAttachPoint \<Rightarrow>
          (case attachPointOf loaded (target cableInfo) of
             None \<Rightarrow> cableInfo
           | Some targetAttachPoint \<Rightarrow>
               (let sourcePos = worldPosition sourceAttachPoint;
                    targetPos = worldPosition targetAttachPoint;
                    direction = subVectors targetPos sourcePos
                in cableInfo\<lparr>object_ci := (object_ci cableInfo)
                     \<lparr>position := addVector sourcePos (multiplyScalar direction 0.5),
                      axis := normalize direction\<rparr>\<rparr>)))"

text \<open>\<^verbatim>\<open>updateScene\<close> reads the clock once (\<open>currentTime\<close> is \<^verbatim>\<open>Date.now()\<close>).\<close>

definition updateScene :: "int \<Rightarrow> ThreeSceneService \<Rightarrow> ThreeSceneService" where
  "updateScene currentTime s =
     (let s1 = updateBlinkingPorts currentTime s in
      s1\<lparr>cables := map (\<lambda>(cableId, cableInfo).
             (cableId, updateCablePosition (loadedModels s1) cableInfo))
           (cables s1)\<rparr>)"

definition disconnectCable :: "string \<Rightarrow> ThreeSceneService \<Rightarrow> ThreeSceneService" where
  "disconnectCable cableId s =
     (case map_of (cables s) cableId of
        None \<Rightarrow> s
      | Some cableInfo \<Rightarrow>
          s\<lparr>scene := sceneRemove (meshId (object_ci cableInfo)) (scene s),
            cables := AList.delete cableId (cables s)\<rparr>)"

definition removeModelFromScene :: "string \<Rightarrow> ThreeSceneService \<Rightarrow> ThreeSceneService" where
  "removeModelFromScene modelInstanceId s =
     (case map_of (loadedModels s) modelInstanceId of
        None \<Rightarrow> s
      | Some modelData \<Rightarrow>
          (let s1 = fold (\<lambda>cableId st.
                      (case map_of (cables st) cableId of
                         None \<Rightarrow> st
                       | Some cable \<Rightarrow>
                           if modelId (source cable) = modelInstanceId
                              \<or> modelId (target cable) = modelInstanceId
                           then disconnectCable cableId st else st))
                    (map fst (cables s)) s
           in s1\<lparr>scene := sceneRemove (object_lm modelData) (scene s1),
                 loadedModels := AList.delete modelInstanceId (loadedModels s1)\<rparr>))"

definition dispose :: "ThreeSceneService \<Rightarrow> ThreeSceneService" where
  "dispose s = s\<lparr>loadedModels := [], cables := []\<rparr>"

subsection \<open>Loading a model\<close>

text \<open>
  \<^verbatim>\<open>addModelToScene\<close> is an \<^verbatim>\<open>async\<close> function with one \<^verbatim>\<open>await\<close>. It runs in two
  steps: \<open>addModelToScene_start\<close> is the code up to the \<^verbatim>\<open>await\<close> (\<open>None\<close> when it returns
  at once), \<open>addModelToScene_resume\<close> the code after it, run on the state of that later
  moment with the outcome of the load. \<open>addModelToScene\<close> is a call with nothing in
  between. An exception raised while the loaded nodes are traversed ends the traversal and
  is caught and logged like a failed load: the root is in the scene by then, and no entry
  is written.
\<close>

record PendingModel =
  pendingUrl :: string
  pendingId :: string
  pendingPosition :: "Vector3D option"
  pendingRotation :: "EulerRotation option"

definition addModelToScene_start ::
  "string \<Rightarrow> string \<Rightarrow> Vector3D option \<Rightarrow> EulerRotation option \<Rightarrow> ThreeSceneService
     \<Rightarrow> PendingModel option" where
  "addModelToScene_start modelUrl modelInstanceId pos rot s =
     (if hasMember (loadedModels s) modelInstanceId then None
      else Some \<lparr>pendingUrl = modelUrl, pendingId = modelInstanceId,
                 pendingPosition = pos, pendingRotation = rot\<rparr>)"

definition traverseChild ::
  "string \<Rightarrow> GltfNode \<Rightarrow> LoadedModel \<times> ThreeSceneService
     \<Rightarrow> error + LoadedModel \<times> ThreeSceneService" where
  "traverseChild modelInstanceId child acc =
     (case acc of (modelEntry, s) \<Rightarrow>
        (if nodeMesh child \<noteq> None \<and> endsWith (nodeName child) ''_Indicator'' then
           (case nodeMesh child of
              None \<Rightarrow> Inr (modelEntry, s)
            | Some OtherMaterial \<Rightarrow> Inl TypeError
            | Some (Standard mat) \<Rightarrow>
                (case setPortState modelInstanceId (nodeName child) ''inactive'' False s of
                   Inl e \<Rightarrow> Inl e
                 | Inr s' \<Rightarrow>
                     Inr (modelEntry\<lparr>portIndicators :=
                            AList.update (nodeName child)
                              \<lparr>mesh = mat, originalColor = color mat,
                               originalEmissive = emissive mat,
                               blinking = None, blinkOn = None, lastBlinkTime = None,
                               currentState = None\<rparr>
                              (portIndicators modelEntry)\<rparr>, s')))
         else if endsWith (nodeName child) ''_Attach'' then
           Inr (modelEntry\<lparr>portAttachPoints :=
                  AList.update (nodeName child) \<lparr>worldPosition = nodeWorldPosition child\<rparr>
                    (portAttachPoints modelEntry)\<rparr>, s)
         else Inr (modelEntry, s)))"

text \<open>The traversal, node by node; \<open>Inl\<close> carries the state at the moment of the
  exception.\<close>

fun traverse ::
  "string \<Rightarrow> GltfNode list \<Rightarrow> LoadedModel \<times> ThreeSceneService
     \<Rightarrow> error \<times> ThreeSceneService + LoadedModel \<times> ThreeSceneService" where
  "traverse modelInstanceId [] acc = Inr acc"
| "traverse modelInstanceId (child # rest) acc =
     (case traverseChild modelInstanceId child acc of
        Inl e \<Rightarrow> Inl (e, snd acc)
      | Inr acc' \<Rightarrow> traverse modelInstanceId rest acc')"

definition addModelToScene_resume ::
  "Gltf option \<Rightarrow> PendingModel \<Rightarrow> ThreeSceneService \<Rightarrow> ThreeSceneService" where
  "addModelToScene_resume loaded k s =
     (case loaded of
        None \<Rightarrow> s
      | Some gltf \<Rightarrow>
          (let modelRoot = nextObject s;
               s1 = s\<lparr>scene := scene s @
                         [ModelRoot modelRoot (pendingId k) (pendingPosition k) (pendingRotation k)],
                      nextObject := Suc modelRoot\<rparr>;
               modelEntry = \<lparr>id_lm = pendingId k, object_lm = modelRoot,
                             portIndicators = [], portAttachPoints = []\<rparr>;
               rootNode = \<lparr>nodeName = pendingId k, nodeMesh = None,
                           nodeWorldPosition =
                             (case pendingPosition k of
                                None \<Rightarrow> rootWorldPosition gltf | Some p \<Rightarrow> p)\<rparr>
           in (case traverse (pendingId k) (rootNode # descendants gltf) (modelEntry, s1) of
                 Inl (e, s2) \<Rightarrow> s2
               | Inr (modelEntry', s2) \<Rightarrow>
                   s2\<lparr>loadedModels :=
                        AList.update (pendingId k) modelEntry' (loadedModels s2)\<rparr>)))"

definition addModelToScene ::
  "Gltf option \<Rightarrow> string \<Rightarrow> string \<Rightarrow> Vector3D option \<Rightarrow> EulerRotation option
     \<Rightarrow> ThreeSceneService \<Rightarrow> ThreeSceneService" where
  "addModelToScene loaded modelUrl modelInstanceId pos rot s =
     (case addModelToScene_start modelUrl modelInstanceId pos rot s of
        None \<Rightarrow> s
      | Some k \<Rightarrow> addModelToScene_resume loaded k s)"

subsection \<open>Connecting a cable\<close>

text \<open>\<^verbatim>\<open>connectCable\<close> is \<^verbatim>\<open>async\<close> in the same way: the two attach points are looked
  up before the \<^verbatim>\<open>await\<close> and kept in local variables, the mesh is built after it.
  \<open>connectCable_start\<close> is \<open>None\<close> for a call that adds nothing whatever the load
  gives.\<close>

record PendingCable =
  pendingCableUrl :: string
  pendingCableId :: string
  pendingSource :: Endpoint
  pendingTarget :: Endpoint
  sourceAttachPoint :: AttachPoint
  targetAttachPoint :: AttachPoint

definition connectCable_start ::
  "string \<Rightarrow> string \<Rightarrow> Endpoint \<Rightarrow> Endpoint \<Rightarrow> ThreeSceneService \<Rightarrow> PendingCable option" where
  "connectCable_start cableModelUrl cableInstanceId src tgt s =
     (case map_of (loadedModels s) (modelId src) of
        None \<Rightarrow> None
      | Some sourceModel \<Rightarrow>
          (case map_of (loadedModels s) (modelId tgt) of
             None \<Rightarrow> None
           | Some targetModel \<Rightarrow>
               (case map_of (portAttachPoints sourceModel) (portAttachName src) of
                  None \<Rightarrow> None
                | Some sap \<Rightarrow>
                    (case map_of (portAttachPoints targetModel) (portAttachName tgt) of
                       None \<Rightarrow> None
                     | Some tap \<Rightarrow>
                         Some \<lparr>pendingCableUrl = cableModelUrl, pendingCableId = cableInstanceId,
                               pendingSource = src, pendingTarget = tgt,
                               sourceAttachPoint = sap, targetAttachPoint = tap\<rparr>))))"

definition connectCable_resume ::
  "Gltf option \<Rightarrow> PendingCable \<Rightarrow> ThreeSceneService \<Rightarrow> ThreeSceneService" where
  "connectCable_resume loaded k s =
     (case loaded of
        None \<Rightarrow> s
      | Some gltf \<Rightarrow>
          (let sourcePos = worldPosition (sourceAttachPoint k);
               targetPos = worldPosition (targetAttachPoint k);
               direction = subVectors targetPos sourcePos;
               len = vlength direction;
               halved = multiplyScalar direction 0.5;
               cableMesh = \<lparr>meshId = nextObject s, meshName = pendingCableId k,
                            height = len, position = addVector sourcePos halved,
                            axis = normalize halved,
                            material = \<lparr>color = Hex 0x555555, emissive = Hex 0x000000\<rparr>\<rparr>
           in updateCableVisualsForPort (modelId (pendingSource k))
                (replace (portAttachName (pendingSource k)) ''_Attach'' ''_Indicator'')
                (s\<lparr>scene := scene s @ [CableObject (nextObject s) (pendingCableId k)],
                   cables := AList.update (pendingCableId k)
                     \<lparr>id_ci = pendingCableId k, object_ci = cableMesh,
                      source = pendingSource k, target = pendingTarget k\<rparr> (cables s),
                   nextObject := Suc (nextObject s)\<rparr>)))"

definition connectCable ::
  "Gltf option \<Rightarrow> string \<Rightarrow> string \<Rightarrow> Endpoint \<Rightarrow> Endpoint
     \<Rightarrow> ThreeSceneService \<Rightarrow> ThreeSceneService" where
  "connectCable loaded cableModelUrl cableInstanceId src tgt s =
     (case connectCable_start cableModelUrl cableInstanceId src tgt s of
        None \<Rightarrow> s
      | Some k \<Rightarrow> connectCable_resume loaded k s)"

subsection \<open>Picking\<close>

text \<open>A click is given by what the raycaster returns: for each intersection, nearest
  first, the names of the hit object and of its ancestors, from the object upwards.\<close>

fun findParentModel :: "(string \<times> LoadedModel) list \<Rightarrow> string list \<Rightarrow> string option" where
  "findParentModel loaded [] = None"
| "findParentModel loaded (n # parents) =
     (if hasMember loaded n then Some n else findParentModel loaded parents)"

fun walkUp ::
  "(string \<times> LoadedModel) list \<Rightarrow> string list
     \<Rightarrow> string option \<times> string option \<times> ObjectType option" where
  "walkUp loaded [] = (None, None, None)"
| "walkUp loaded (n # parents) =
     (if hasMember loaded n then (Some n, None, Some Device)
      else if endsWith n ''_Indicator'' then (findParentModel loaded parents, Some n, Some Port)
      else walkUp loaded parents)"

definition truthy :: "string option \<Rightarrow> bool" where
  "truthy v = (case v of None \<Rightarrow> False | Some str \<Rightarrow> str \<noteq> [])"

text \<open>The result is the list of events sent on \<^verbatim>\<open>onObjectSelected\<close> by this click.\<close>

definition onCanvasClick ::
  "string list list \<Rightarrow> ThreeSceneService \<Rightarrow> SelectedObjectInfo list" where
  "onCanvasClick intersects s =
     (case intersects of
        [] \<Rightarrow> []
      | chain # rest \<Rightarrow>
          (case walkUp (loadedModels s) chain of
             (modelInstanceId, portName, objType) \<Rightarrow>
               (if truthy modelInstanceId \<and>
                   (objType = Some Device \<or> (truthy portName \<and> objType = Some Port))
                then (case modelInstanceId of
                        None \<Rightarrow> []
                      | Some m \<Rightarrow>
                          (case objType of
                             None \<Rightarrow> []
                           | Some ty \<Rightarrow>
                               [\<lparr>modelId_sel = m,
                                 objectName = (if truthy portName
                                               then (case portName of Some p \<Rightarrow> p | None \<Rightarrow> m)
                                               else m),
                                 objectType = ty\<rparr>]))
                else [])))"

section \<open>The topology store\<close>

record PortState =
  name_ps :: string
  status :: string
  blinking_ps :: bool
  connectedCableId :: "string option"

record ModelInstance =
  id_mi :: string
  modelDefinitionId :: string
  assetUrl :: string
  displayName :: "string option"
  position_mi :: Vector3D
  rotation_mi :: EulerRotation
  ports :: "PortState list"

record CableConnection =
  id_cc :: string
  cableModelUrl :: "string option"
  source_cc :: Endpoint
  target_cc :: Endpoint

record TopologyLayout =
  id_tl :: string
  name_tl :: string
  models :: "ModelInstance list"
  connections :: "CableConnection list"

text \<open>The three \<^verbatim>\<open>BehaviorSubject\<close>s of the store, each by its current value.\<close>

record TopologyStateService =
  currentTopology :: "TopologyLayout option"
  selectedObject :: "SelectedObjectInfo option"
  isLoading :: bool

definition setSelectedObject ::
  "string \<Rightarrow> string \<Rightarrow> ObjectType \<Rightarrow> TopologyStateService \<Rightarrow> TopologyStateService" where
  "setSelectedObject mid oname otype st =
     st\<lparr>selectedObject := Some \<lparr>modelId_sel = mid, objectName = oname, objectType = otype\<rparr>\<rparr>"

definition clearSelectedObject :: "TopologyStateService \<Rightarrow> TopologyStateService" where
  "clearSelectedObject st = st\<lparr>selectedObject := None\<rparr>"

definition addModelInstance :: "ModelInstance \<Rightarrow> TopologyStateService \<Rightarrow> TopologyStateService" where
  "addModelInstance model st =
     (case currentTopology st of
        None \<Rightarrow> st
      | Some topo \<Rightarrow> st\<lparr>currentTopology := Some (topo\<lparr>models := models topo @ [model]\<rparr>)\<rparr>)"

definition removeModelInstance :: "string \<Rightarrow> TopologyStateService \<Rightarrow> TopologyStateService" where
  "removeModelInstance mid st =
     (case currentTopology st of
        None \<Rightarrow> st
      | Some topo \<Rightarrow>
          (let updatedModels = filter (\<lambda>m. id_mi m \<noteq> mid) (models topo);
               updatedConnections =
                 filter (\<lambda>conn. modelId (source_cc conn) \<noteq> mid \<and> modelId (target_cc conn) \<noteq> mid)
                   (connections topo);
               st1 = st\<lparr>currentTopology :=
                         Some (topo\<lparr>models := updatedModels, connections := updatedConnections\<rparr>)\<rparr>
           in if (case selectedObject st1 of None \<Rightarrow> False | Some sel \<Rightarrow> modelId_sel sel = mid)
              then clearSelectedObject st1 else st1))"

text \<open>\<^verbatim>\<open>Array.prototype.findIndex\<close>: the first index whose element passes, or \<open>-1\<close>.\<close>

fun findIndex :: "('a \<Rightarrow> bool) \<Rightarrow> 'a list \<Rightarrow> int" where
  "findIndex P [] = - 1"
| "findIndex P (a # as) =
     (if P a then 0 else (let i = findIndex P as in if i = - 1 then - 1 else i + 1))"

definition updatePortState ::
  "string \<Rightarrow> string \<Rightarrow> string \<Rightarrow> bool \<Rightarrow> TopologyStateService \<Rightarrow> TopologyStateService" where
  "updatePortState mid portName newStatus newBlinking st =
     (case currentTopology st of
        None \<Rightarrow> st
      | Some topo \<Rightarrow>
          (let modelIndex = findIndex (\<lambda>m. id_mi m = mid) (models topo) in
           if modelIndex > - 1 then
             (let model = models topo ! nat modelIndex;
                  portIndex = findIndex (\<lambda>p. name_ps p = portName) (ports model) in
              if portIndex > - 1 then
                st\<lparr>currentTopology := Some (topo\<lparr>models := (models topo)
                     [nat modelIndex := model\<lparr>ports := (ports model)
                        [nat portIndex := (ports model ! nat portIndex)
                           \<lparr>status := newStatus, blinking_ps := newBlinking\<rparr>]\<rparr>]\<rparr>)\<rparr>
              else st)
           else st))"

text \<open>A number in a template literal: its decimal digits.\<close>

fun digits :: "nat \<Rightarrow> string" where
  "digits n =
     (if n < 10 then [''0123456789'' ! n]
      else digits (n div 10) @ [''0123456789'' ! (n mod 10)])"

definition numberToString :: "int \<Rightarrow> string" where
  "numberToString i = (if i < 0 then CHR ''-'' # digits (nat (- i)) else digits (nat i))"

text \<open>\<open>now\<close> is \<^verbatim>\<open>Date.now()\<close> and \<open>randomPart\<close> is
  \<^verbatim>\<open>Math.random().toString(36).substr(2, 5)\<close>, both read only when the id is empty.\<close>

definition addCableConnection ::
  "int \<Rightarrow> string \<Rightarrow> CableConnection \<Rightarrow> TopologyStateService \<Rightarrow> TopologyStateService" where
  "addCableConnection now randomPart conn st =
     (case currentTopology st of
        None \<Rightarrow> st
      | Some topo \<Rightarrow>
          (let connection =
                 (if id_cc conn = []
                  then conn\<lparr>id_cc := ''cable_'' @ numberToString now @ ''_'' @ randomPart\<rparr>
                  else conn)
           in st\<lparr>currentTopology :=
                   Some (topo\<lparr>connections := connections topo @ [connection]\<rparr>)\<rparr>))"

definition removeCableConnection :: "string \<Rightarrow> TopologyStateService \<Rightarrow> TopologyStateService" where
  "removeCableConnection cableId st =
     (case currentTopology st of
        None \<Rightarrow> st
      | Some topo \<Rightarrow>
          st\<lparr>currentTopology :=
               Some (topo\<lparr>connections := filter (\<lambda>c. id_cc c \<noteq> cableId) (connections topo)\<rparr>)\<rparr>)"

section \<open>The viewer component\<close>

text \<open>The subscriber to \<^verbatim>\<open>onObjectSelected\<close>, and its run over the events of one click.\<close>

definition onObjectSelected_next ::
  "SelectedObjectInfo \<Rightarrow> TopologyStateService \<Rightarrow> TopologyStateService" where
  "onObjectSelected_next selected st =
     setSelectedObject (modelId_sel selected) (objectName selected) (objectType selected) st"

definition canvasClicked ::
  "string list list \<Rightarrow> ThreeSceneService \<Rightarrow> TopologyStateService \<Rightarrow> TopologyStateService" where
  "canvasClicked intersects s st = fold onObjectSelected_next (onCanvasClick intersects s) st"

definition deleteSelectedModel :: "TopologyStateService \<Rightarrow> TopologyStateService" where
  "deleteSelectedModel st =
     (case selectedObject st of
        None \<Rightarrow> st
      | Some selected \<Rightarrow>
          if modelId_sel selected \<noteq> [] then removeModelInstance (modelId_sel selected) st else st)"

text \<open>
  The subscriber to \<^verbatim>\<open>currentTopology$\<close>: for every model of a delivered topology it calls
  \<^verbatim>\<open>addModelToScene\<close>, which runs up to its \<^verbatim>\<open>await\<close>; \<open>topologyDelivered\<close> is the list
  of the loads then pending. When such a call settles, \<open>modelSettled\<close> runs the rest of it
  and the \<^verbatim>\<open>then\<close> callback that sets the port states, port by port; a \<^verbatim>\<open>TypeError\<close>
  raised by \<open>setPortState\<close> ends the callback there.
\<close>

definition topologyDelivered ::
  "TopologyLayout option \<Rightarrow> ThreeSceneService \<Rightarrow> (ModelInstance \<times> PendingModel option) list" where
  "topologyDelivered topology s =
     (case topology of
        None \<Rightarrow> []
      | Some topo \<Rightarrow>
          map (\<lambda>modelData.
                 (modelData,
                  addModelToScene_start (assetUrl modelData) (id_mi modelData)
                    (Some (position_mi modelData)) (Some (rotation_mi modelData)) s))
              (models topo))"

fun setPortStates :: "string \<Rightarrow> PortState list \<Rightarrow> ThreeSceneService \<Rightarrow> ThreeSceneService" where
  "setPortStates mid [] s = s"
| "setPortStates mid (portData # rest) s =
     (case setPortState mid (name_ps portData) (status portData) (blinking_ps portData) s of
        Inl e \<Rightarrow> s
      | Inr s' \<Rightarrow> setPortStates mid rest s')"

definition modelSettled ::
  "Gltf option \<Rightarrow> ModelInstance \<times> PendingModel option \<Rightarrow> ThreeSceneService \<Rightarrow> ThreeSceneService" where
  "modelSettled loaded call s =
     (case call of (modelData, pending) \<Rightarrow>
        setPortStates (id_mi modelData) (ports modelData)
          (case pending of None \<Rightarrow> s | Some k \<Rightarrow> addModelToScene_resume loaded k s))"

section \<open>Derived notions used in the statements\<close>

definition portInfoOf :: "ThreeSceneService \<Rightarrow> string \<Rightarrow> string \<Rightarrow> PortInfo option" where
  "portInfoOf s modelInstanceId portName =
     (case map_of (loadedModels s) modelInstanceId of
        None \<Rightarrow> None
      | Some modelData \<Rightarrow> map_of (portIndicators modelData) portName)"

definition isLoadedModel :: "ThreeSceneService \<Rightarrow> string \<Rightarrow> bool" where
  "isLoadedModel s n = (map_of (loadedModels s) n \<noteq> None)"

text \<open>The state after a call of \<open>setPortState\<close> made in \<open>s\<close>: a call that raises has
  changed nothing.\<close>

definition stateAfter :: "error + ThreeSceneService \<Rightarrow> ThreeSceneService \<Rightarrow> ThreeSceneService" where
  "stateAfter outcome s = (case outcome of Inl e \<Rightarrow> s | Inr s' \<Rightarrow> s')"

definition portColourValue ::
  "(string \<Rightarrow> nat option) \<Rightarrow> ThreeSceneService \<Rightarrow> string \<Rightarrow> string \<Rightarrow> nat option" where
  "portColourValue reads s modelInstanceId portName =
     map_option (\<lambda>portInfo. colourValue reads (color (mesh portInfo)))
       (portInfoOf s modelInstanceId portName)"

text \<open>The state a traversal leaves, whether it ended or raised.\<close>

definition traversedState ::
  "error \<times> ThreeSceneService + LoadedModel \<times> ThreeSceneService \<Rightarrow> ThreeSceneService" where
  "traversedState r = (case r of Inl (e, s) \<Rightarrow> s | Inr (modelEntry, s) \<Rightarrow> s)"

text \<open>The two models a stored cable refers to are loaded; and this of every stored cable.\<close>

definition cableEndsLoaded :: "(string \<times> LoadedModel) list \<Rightarrow> CableInfo \<Rightarrow> bool" where
  "cableEndsLoaded loaded cable =
     (map_of loaded (modelId (source cable)) \<noteq> None
      \<and> map_of loaded (modelId (target cable)) \<noteq> None)"

definition cablesReferToLoadedModels :: "ThreeSceneService \<Rightarrow> bool" where
  "cablesReferToLoadedModels s =
     list_all (\<lambda>cableId. case map_of (cables s) cableId of
                            None \<Rightarrow> True
                          | Some cable \<Rightarrow> cableEndsLoaded (loadedModels s) cable)
       (map fst (cables s))"

section \<open>Example values\<close>

definition demoPort :: PortInfo where
  "demoPort = \<lparr>mesh = \<lparr>color = Hex 0x222222, emissive = Hex 0x000000\<rparr>,
     originalColor = Hex 0x222222, originalEmissive = Hex 0x000000,
     blinking = None, blinkOn = None, lastBlinkTime = None, currentState = None\<rparr>"

definition demoScene :: ThreeSceneService where
  "demoScene =
     \<lparr>scene = [Light 0, Light 1, ModelRoot 2 ''sw1'' None None, ModelRoot 3 ''sw2'' None None],
      loadedModels =
        [(''sw1'', \<lparr>id_lm = ''sw1'', object_lm = 2,
                    portIndicators = [(''P1_Indicator'', demoPort)],
                    portAttachPoints = [(''P1_Attach'', \<lparr>worldPosition = (0, 0, 0)\<rparr>)]\<rparr>),
         (''sw2'', \<lparr>id_lm = ''sw2'', object_lm = 3,
                    portIndicators = [(''P1_Indicator'', demoPort)],
                    portAttachPoints = [(''P1_Attach'', \<lparr>worldPosition = (3, 4, 0)\<rparr>)]\<rparr>)],
      cables = [], nextObject = 4\<rparr>"

definition demoPortState :: "string \<Rightarrow> PortState" where
  "demoPortState n = \<lparr>name_ps = n, status = ''inactive'', blinking_ps = False,
     connectedCableId = None\<rparr>"

definition demoModel :: "string \<Rightarrow> ModelInstance" where
  "demoModel i = \<lparr>id_mi = i, modelDefinitionId = ''Switch_ModelA'',
     assetUrl = ''assets/models/Switch_ModelA.glb'', displayName = None,
     position_mi = (0, 0, 0), rotation_mi = (0, 0, 0, None),
     ports = [demoPortState ''P1_Indicator'', demoPortState ''P2_Indicator'']\<rparr>"

definition demoConnection :: "string \<Rightarrow> string \<Rightarrow> string \<Rightarrow> CableConnection" where
  "demoConnection c a b = \<lparr>id_cc = c, cableModelUrl = None,
     source_cc = \<lparr>modelId = a, portAttachName = ''P1_Attach''\<rparr>,
     target_cc = \<lparr>modelId = b, portAttachName = ''P1_Attach''\<rparr>\<rparr>"

definition demoTopology :: TopologyLayout where
  "demoTopology = \<lparr>id_tl = ''main'', name_tl = ''Main'',
     models = [demoModel ''sw1'', demoModel ''sw2'', demoModel ''sw3''],
     connections = [demoConnection ''c1'' ''sw1'' ''sw2'', demoConnection ''c2'' ''sw2'' ''sw3'']\<rparr>"

definition demoStore :: TopologyStateService where
  "demoStore = \<lparr>currentTopology = Some demoTopology, selectedObject = None, isLoading = False\<rparr>"

definition emptyIdScene :: ThreeSceneService where
  "emptyIdScene =
     \<lparr>scene = [Light 0, Light 1, ModelRoot 2 '''' None None],
      loadedModels =
        [('''', \<lparr>id_lm = '''', object_lm = 2,
                 portIndicators = [(''P1_Indicator'', demoPort)],
                 portAttachPoints = []\<rparr>)],
      cables = [], nextObject = 3\<rparr>"

definition demoStore0 :: TopologyStateService where
  "demoStore0 = \<lparr>currentTopology = None, selectedObject = None, isLoading = False\<rparr>"

definition demoGltf :: Gltf where
  "demoGltf =
     \<lparr>rootWorldPosition = (0, 0, 0),
      descendants =
        [\<lparr>nodeName = ''P1_Indicator'',
          nodeMesh = Some (Standard \<lparr>color = Hex 0x222222, emissive = Hex 0x000000\<rparr>),
          nodeWorldPosition = (0, 0, 0)\<rparr>,
         \<lparr>nodeName = ''P1_Attach'', nodeMesh = None, nodeWorldPosition = (1, 0, 0)\<rparr>]\<rparr>"

definition demoSource :: Endpoint where
  "demoSource = \<lparr>modelId = ''sw1'', portAttachName = ''P1_Attach''\<rparr>"

definition demoTarget :: Endpoint where
  "demoTarget = \<lparr>modelId = ''sw2'', portAttachName = ''P1_Attach''\<rparr>"

definition demoPendingCable :: PendingCable where
  "demoPendingCable =
     \<lparr>pendingCableUrl = ''cable.glb'', pendingCableId = ''c1'',
      pendingSource = demoSource, pendingTarget = demoTarget,
      sourceAttachPoint = \<lparr>worldPosition = (0, 0, 0)\<rparr>,
      targetAttachPoint = \<lparr>worldPosition = (3, 4, 0)\<rparr>\<rparr>"

definition startScene :: ThreeSceneService where
  "startScene = \<lparr>scene = [Light 0, Light 1], loadedModels = [], cables = [], nextObject = 2\<rparr>"

definition oneModelTopology :: TopologyLayout where
  "oneModelTopology = \<lparr>id_tl = ''main'', name_tl = ''Main'',
     models = [demoModel ''sw1''], connections = []\<rparr>"

text \<open>A reading of style strings for the examples: one hex string is read, nothing else.\<close>

definition demoReads :: "string \<Rightarrow> nat option" where
  "demoReads str = (if str = ''#ffaa00'' then Some 0xffaa00 else None)"

definition greenScene :: ThreeSceneService where
  "greenScene =
     stateAfter (setPortState ''sw1'' ''P1_Indicator'' ''active'' False demoScene) demoScene"

definition redScene :: ThreeSceneService where
  "redScene =
     stateAfter (setPortState ''sw1'' ''P1_Indicator'' ''error'' False demoScene) demoScene"

definition blinkingScene :: ThreeSceneService where
  "blinkingScene =
     stateAfter (setPortState ''sw1'' ''P1_Indicator'' ''active'' True demoScene) demoScene"

definition otherMaterialGltf :: Gltf where
  "otherMaterialGltf =
     \<lparr>rootWorldPosition = (0, 0, 0),
      descendants =
        [\<lparr>nodeName = ''P1_Indicator'', nodeMesh = Some OtherMaterial,
          nodeWorldPosition = (0, 0, 0)\<rparr>]\<rparr>"

section \<open>Basic facts\<close>

lemma loadedModels_updateCableVisualsForPort [simp]:
  "loadedModels (updateCableVisualsForPort m p s) = loadedModels s"
  by (simp add: updateCableVisualsForPort_def)

lemma getMember_Own: "map_of obj name = Some v \<Longrightarrow> getMember obj name = Own v"
  by (simp add: getMember_def)

lemma getMember_Own_iff: "getMember obj name = Own v \<longleftrightarrow> map_of obj name = Some v"
  by (simp add: getMember_def split: option.splits)

lemma portInfoOf_setPortState:
  assumes "portInfoOf s m p = Some portInfo"
  shows "\<exists>s'. setPortState m p state blnk s = Inr s'
           \<and> portInfoOf s' m p = Some (applyPortState state blnk portInfo)"
proof -
  from assms obtain modelData where md: "map_of (loadedModels s) m = Some modelData"
      "map_of (portIndicators modelData) p = Some portInfo"
    by (auto simp: portInfoOf_def split: option.splits)
  let ?s' = "updateCableVisualsForPort m p
               (s\<lparr>loadedModels :=
                    AList.update m
                      (modelData\<lparr>portIndicators :=
                         AList.update p (applyPortState state blnk portInfo)
                           (portIndicators modelData)\<rparr>)
                      (loadedModels s)\<rparr>)"
  have "setPortState m p state blnk s = Inr ?s'"
    using md by (simp add: setPortState_def getMember_Own)
  moreover have "portInfoOf ?s' m p = Some (applyPortState state blnk portInfo)"
    by (simp add: portInfoOf_def update_conv')
  ultimately show ?thesis by blast
qed

lemma demo_port: "portInfoOf demoScene ''sw1'' ''P1_Indicator'' = Some demoPort"
  by (simp add: portInfoOf_def demoScene_def)

lemma demo_port2: "portInfoOf demoScene ''sw2'' ''P1_Indicator'' = Some demoPort"
  by (simp add: portInfoOf_def demoScene_def)

lemma green_port:
  "portInfoOf greenScene ''sw1'' ''P1_Indicator'' = Some (applyPortState ''active'' False demoPort)"
  using portInfoOf_setPortState [OF demo_port, of "''active''" False]
  by (auto simp: greenScene_def stateAfter_def)

lemma red_port:
  "portInfoOf redScene ''sw1'' ''P1_Indicator'' = Some (applyPortState ''error'' False demoPort)"
  using portInfoOf_setPortState [OF demo_port, of "''error''" False]
  by (auto simp: redScene_def stateAfter_def)

section \<open>Port states\<close>

text \<open>
  C1, as the code has it. For a loaded model and a port indicator registered on it,
  \<open>setPortState\<close> returns, leaves the indicator registered and sets its material: green
  \<open>0x00ff00\<close> for \<open>active\<close>, gray \<open>0x808080\<close> with black emissive for \<open>inactive\<close>, red
  \<open>0xff0000\<close> for \<open>error\<close>. For any other state string the emissive is black, and the
  colour is the one the engine reads from the string when it reads one; a string the
  engine cannot read leaves the colour as it was.
\<close>

theorem setPortState_indicator_material:
  assumes "portInfoOf s modelInstanceId portName = Some portInfo"
  shows "\<exists>s' portInfo'.
      setPortState modelInstanceId portName state blnk s = Inr s'
    \<and> portInfoOf s' modelInstanceId portName = Some portInfo'
    \<and> (state = ''active'' \<longrightarrow> color (mesh portInfo') = Hex 0x00ff00)
    \<and> (state = ''inactive'' \<longrightarrow>
          color (mesh portInfo') = Hex 0x808080 \<and> emissive (mesh portInfo') = Hex 0x000000)
    \<and> (state = ''error'' \<longrightarrow> color (mesh portInfo') = Hex 0xff0000)
    \<and> (state \<noteq> ''active'' \<and> state \<noteq> ''inactive'' \<and> state \<noteq> ''error'' \<longrightarrow>
          emissive (mesh portInfo') = Hex 0x000000
        \<and> (\<forall>reads h. reads state = Some h \<longrightarrow>
              colourValue reads (color (mesh portInfo')) = h)
        \<and> (\<forall>reads. reads state = None \<longrightarrow>
              colourValue reads (color (mesh portInfo'))
                = colourValue reads (color (mesh portInfo))))"
proof -
  from portInfoOf_setPortState [OF assms, of state blnk]
  obtain s' where s': "setPortState modelInstanceId portName state blnk s = Inr s'"
      "portInfoOf s' modelInstanceId portName = Some (applyPortState state blnk portInfo)"
    by blast
  show ?thesis
    apply (rule exI [of _ s'])
    apply (rule exI [of _ "applyPortState state blnk portInfo"])
    using s' by (simp add: applyPortState_def Let_def)
qed

theorem setPortState_indicator_material_witness:
  "portInfoOf demoScene ''sw1'' ''P1_Indicator'' = Some demoPort
   \<and> (\<exists>s' p. setPortState ''sw1'' ''P1_Indicator'' ''active'' True demoScene = Inr s'
         \<and> portInfoOf s' ''sw1'' ''P1_Indicator'' = Some p \<and> color (mesh p) = Hex 0x00ff00)
   \<and> (\<exists>s' p. setPortState ''sw1'' ''P1_Indicator'' ''inactive'' True demoScene = Inr s'
         \<and> portInfoOf s' ''sw1'' ''P1_Indicator'' = Some p
         \<and> color (mesh p) = Hex 0x808080 \<and> emissive (mesh p) = Hex 0x000000)
   \<and> (\<exists>s' p. setPortState ''sw1'' ''P1_Indicator'' ''error'' False demoScene = Inr s'
         \<and> portInfoOf s' ''sw1'' ''P1_Indicator'' = Some p \<and> color (mesh p) = Hex 0xff0000)
   \<and> demoReads ''#ffaa00'' = Some 0xffaa00
   \<and> (\<exists>s' p. setPortState ''sw1'' ''P1_Indicator'' ''#ffaa00'' False demoScene = Inr s'
         \<and> portInfoOf s' ''sw1'' ''P1_Indicator'' = Some p
         \<and> colourValue demoReads (color (mesh p)) = 0xffaa00
         \<and> emissive (mesh p) = Hex 0x000000)
   \<and> demoReads ''bogus'' = None
   \<and> (\<exists>s' p. setPortState ''sw1'' ''P1_Indicator'' ''bogus'' False demoScene = Inr s'
         \<and> portInfoOf s' ''sw1'' ''P1_Indicator'' = Some p
         \<and> colourValue demoReads (color (mesh p)) = colourValue demoReads (color (mesh demoPort))
         \<and> emissive (mesh p) = Hex 0x000000)"
proof -
  have r1: "demoReads ''#ffaa00'' = Some 0xffaa00" and r2: "demoReads ''bogus'' = None"
    by (simp_all add: demoReads_def)
  from setPortState_indicator_material [OF demo_port, of "''active''" True]
  have a: "\<exists>s' p. setPortState ''sw1'' ''P1_Indicator'' ''active'' True demoScene = Inr s'
         \<and> portInfoOf s' ''sw1'' ''P1_Indicator'' = Some p \<and> color (mesh p) = Hex 0x00ff00"
    by auto
  from setPortState_indicator_material [OF demo_port, of "''inactive''" True]
  have b: "\<exists>s' p. setPortState ''sw1'' ''P1_Indicator'' ''inactive'' True demoScene = Inr s'
         \<and> portInfoOf s' ''sw1'' ''P1_Indicator'' = Some p
         \<and> color (mesh p) = Hex 0x808080 \<and> emissive (mesh p) = Hex 0x000000"
    by auto
  from setPortState_indicator_material [OF demo_port, of "''error''" False]
  have c: "\<exists>s' p. setPortState ''sw1'' ''P1_Indicator'' ''error'' False demoScene = Inr s'
         \<and> portInfoOf s' ''sw1'' ''P1_Indicator'' = Some p \<and> color (mesh p) = Hex 0xff0000"
    by auto
  from setPortState_indicator_material [OF demo_port, of "''#ffaa00''" False] r1
  have d: "\<exists>s' p. setPortState ''sw1'' ''P1_Indicator'' ''#ffaa00'' False demoScene = Inr s'
         \<and> portInfoOf s' ''sw1'' ''P1_Indicator'' = Some p
         \<and> colourValue demoReads (color (mesh p)) = 0xffaa00
         \<and> emissive (mesh p) = Hex 0x000000"
    by (elim exE conjE) (force)
  from setPortState_indicator_material [OF demo_port, of "''bogus''" False] r2
  have e: "\<exists>s' p. setPortState ''sw1'' ''P1_Indicator'' ''bogus'' False demoScene = Inr s'
         \<and> portInfoOf s' ''sw1'' ''P1_Indicator'' = Some p
         \<and> colourValue demoReads (color (mesh p)) = colourValue demoReads (color (mesh demoPort))
         \<and> emissive (mesh p) = Hex 0x000000"
    by (elim exE conjE) (force)
  show ?thesis using demo_port a b c d e r1 r2 by blast
qed

text \<open>C1 as stated fails for a state string the engine cannot read: the indicator was green,
  the state \<open>bogus\<close> is set, and the colour is still green, not one set from that string.\<close>

theorem setPortState_unreadable_colour_counterexample:
  "demoReads ''bogus'' = None
   \<and> portColourValue demoReads greenScene ''sw1'' ''P1_Indicator'' = Some 0x00ff00
   \<and> setPortState ''sw1'' ''P1_Indicator'' ''bogus'' False greenScene \<noteq> Inl TypeError
   \<and> portColourValue demoReads
        (stateAfter (setPortState ''sw1'' ''P1_Indicator'' ''bogus'' False greenScene) greenScene)
        ''sw1'' ''P1_Indicator'' = Some 0x00ff00"
proof -
  from portInfoOf_setPortState [OF green_port, of "''bogus''" False]
  obtain s' where s': "setPortState ''sw1'' ''P1_Indicator'' ''bogus'' False greenScene = Inr s'"
    "portInfoOf s' ''sw1'' ''P1_Indicator''
       = Some (applyPortState ''bogus'' False (applyPortState ''active'' False demoPort))"
    by blast
  show ?thesis
    using s' green_port
    by (simp add: portColourValue_def stateAfter_def demoReads_def applyPortState_def Let_def)
qed

text \<open>
  C7, as the code has it. For an existing port indicator, \<open>setPortState\<close> returns, and what
  it stores depends on the arguments of the call only: \<open>currentState\<close> is the state
  argument, \<open>blinking\<close> is the blinking argument, except that it is false for
  \<open>inactive\<close>. From any two prior situations of the port the same call stores the same
  \<open>currentState\<close> and \<open>blinking\<close> and leaves the same emissive, and the same material
  colour when the state is \<open>active\<close>, \<open>inactive\<close> or \<open>error\<close> or a string the engine
  reads as a colour; a string the engine cannot read leaves each colour as it was before
  the call.
\<close>

theorem setPortState_stored_state:
  assumes "portInfoOf s1 modelInstanceId portName = Some prior1"
      and "portInfoOf s2 modelInstanceId portName = Some prior2"
  shows "\<exists>s1' s2' p1 p2.
      setPortState modelInstanceId portName state blnk s1 = Inr s1'
    \<and> setPortState modelInstanceId portName state blnk s2 = Inr s2'
    \<and> portInfoOf s1' modelInstanceId portName = Some p1
    \<and> portInfoOf s2' modelInstanceId portName = Some p2
    \<and> currentState p1 = Some state
    \<and> blinking p1 = Some (if state = ''inactive'' then False else blnk)
    \<and> currentState p2 = currentState p1
    \<and> blinking p2 = blinking p1
    \<and> emissive (mesh p2) = emissive (mesh p1)
    \<and> (state = ''active'' \<or> state = ''inactive'' \<or> state = ''error'' \<longrightarrow>
          color (mesh p2) = color (mesh p1))
    \<and> (\<forall>reads. reads state \<noteq> None \<longrightarrow>
          colourValue reads (color (mesh p2)) = colourValue reads (color (mesh p1)))
    \<and> (\<forall>reads. state \<noteq> ''active'' \<and> state \<noteq> ''inactive'' \<and> state \<noteq> ''error''
                \<and> reads state = None \<longrightarrow>
          colourValue reads (color (mesh p1)) = colourValue reads (color (mesh prior1))
        \<and> colourValue reads (color (mesh p2)) = colourValue reads (color (mesh prior2)))"
proof -
  from portInfoOf_setPortState [OF assms(1), of state blnk]
  obtain s1' where s1': "setPortState modelInstanceId portName state blnk s1 = Inr s1'"
      "portInfoOf s1' modelInstanceId portName = Some (applyPortState state blnk prior1)"
    by blast
  from portInfoOf_setPortState [OF assms(2), of state blnk]
  obtain s2' where s2': "setPortState modelInstanceId portName state blnk s2 = Inr s2'"
      "portInfoOf s2' modelInstanceId portName = Some (applyPortState state blnk prior2)"
    by blast
  show ?thesis
    apply (rule exI [of _ s1'])
    apply (rule exI [of _ s2'])
    apply (rule exI [of _ "applyPortState state blnk prior1"])
    apply (rule exI [of _ "applyPortState state blnk prior2"])
    using s1' s2' by (auto simp: applyPortState_def Let_def)
qed

theorem setPortState_stored_state_witness:
  "portInfoOf demoScene ''sw1'' ''P1_Indicator'' = Some demoPort
   \<and> portInfoOf redScene ''sw1'' ''P1_Indicator'' = Some (applyPortState ''error'' False demoPort)
   \<and> (\<exists>s1' s2' p1 p2.
        setPortState ''sw1'' ''P1_Indicator'' ''inactive'' True demoScene = Inr s1'
      \<and> setPortState ''sw1'' ''P1_Indicator'' ''inactive'' True redScene = Inr s2'
      \<and> portInfoOf s1' ''sw1'' ''P1_Indicator'' = Some p1
      \<and> portInfoOf s2' ''sw1'' ''P1_Indicator'' = Some p2
      \<and> currentState p1 = Some ''inactive'' \<and> blinking p1 = Some False
      \<and> currentState p2 = currentState p1 \<and> blinking p2 = blinking p1
      \<and> color (mesh p2) = color (mesh p1) \<and> emissive (mesh p2) = emissive (mesh p1))
   \<and> demoReads ''#ffaa00'' \<noteq> None
   \<and> (\<exists>s1' s2' p1 p2.
        setPortState ''sw1'' ''P1_Indicator'' ''#ffaa00'' True demoScene = Inr s1'
      \<and> setPortState ''sw1'' ''P1_Indicator'' ''#ffaa00'' True redScene = Inr s2'
      \<and> portInfoOf s1' ''sw1'' ''P1_Indicator'' = Some p1
      \<and> portInfoOf s2' ''sw1'' ''P1_Indicator'' = Some p2
      \<and> currentState p1 = Some ''#ffaa00'' \<and> blinking p1 = Some True
      \<and> currentState p2 = currentState p1 \<and> blinking p2 = blinking p1
      \<and> colourValue demoReads (color (mesh p2)) = colourValue demoReads (color (mesh p1))
      \<and> emissive (mesh p2) = emissive (mesh p1))"
proof -
  have r: "demoReads ''#ffaa00'' \<noteq> None" by (simp add: demoReads_def)
  from setPortState_stored_state [OF demo_port red_port, of "''inactive''" True]
  have a: "\<exists>s1' s2' p1 p2.
        setPortState ''sw1'' ''P1_Indicator'' ''inactive'' True demoScene = Inr s1'
      \<and> setPortState ''sw1'' ''P1_Indicator'' ''inactive'' True redScene = Inr s2'
      \<and> portInfoOf s1' ''sw1'' ''P1_Indicator'' = Some p1
      \<and> portInfoOf s2' ''sw1'' ''P1_Indicator'' = Some p2
      \<and> currentState p1 = Some ''inactive'' \<and> blinking p1 = Some False
      \<and> currentState p2 = currentState p1 \<and> blinking p2 = blinking p1
      \<and> color (mesh p2) = color (mesh p1) \<and> emissive (mesh p2) = emissive (mesh p1)"
    by (elim exE conjE) force
  from setPortState_stored_state [OF demo_port red_port, of "''#ffaa00''" True] r
  have b: "\<exists>s1' s2' p1 p2.
        setPortState ''sw1'' ''P1_Indicator'' ''#ffaa00'' True demoScene = Inr s1'
      \<and> setPortState ''sw1'' ''P1_Indicator'' ''#ffaa00'' True redScene = Inr s2'
      \<and> portInfoOf s1' ''sw1'' ''P1_Indicator'' = Some p1
      \<and> portInfoOf s2' ''sw1'' ''P1_Indicator'' = Some p2
      \<and> currentState p1 = Some ''#ffaa00'' \<and> blinking p1 = Some True
      \<and> currentState p2 = currentState p1 \<and> blinking p2 = blinking p1
      \<and> colourValue demoReads (color (mesh p2)) = colourValue demoReads (color (mesh p1))
      \<and> emissive (mesh p2) = emissive (mesh p1)"
    by (elim exE conjE) force
  show ?thesis using demo_port red_port r a b by blast
qed

text \<open>C7 as stated fails for a state string the engine cannot read: from a green
  indicator and from a red one, the same call leaves different colours.\<close>

theorem setPortState_prior_colour_counterexample:
  "demoReads ''bogus'' = None
   \<and> portInfoOf greenScene ''sw1'' ''P1_Indicator'' \<noteq> None
   \<and> portInfoOf redScene ''sw1'' ''P1_Indicator'' \<noteq> None
   \<and> portColourValue demoReads
        (stateAfter (setPortState ''sw1'' ''P1_Indicator'' ''bogus'' False greenScene) greenScene)
        ''sw1'' ''P1_Indicator'' = Some 0x00ff00
   \<and> portColourValue demoReads
        (stateAfter (setPortState ''sw1'' ''P1_Indicator'' ''bogus'' False redScene) redScene)
        ''sw1'' ''P1_Indicator'' = Some 0xff0000"
proof -
  from portInfoOf_setPortState [OF green_port, of "''bogus''" False]
  obtain g where g: "setPortState ''sw1'' ''P1_Indicator'' ''bogus'' False greenScene = Inr g"
    "portInfoOf g ''sw1'' ''P1_Indicator''
       = Some (applyPortState ''bogus'' False (applyPortState ''active'' False demoPort))"
    by blast
  from portInfoOf_setPortState [OF red_port, of "''bogus''" False]
  obtain r where r: "setPortState ''sw1'' ''P1_Indicator'' ''bogus'' False redScene = Inr r"
    "portInfoOf r ''sw1'' ''P1_Indicator''
       = Some (applyPortState ''bogus'' False (applyPortState ''error'' False demoPort))"
    by blast
  show ?thesis
    using g r green_port red_port
    by (simp add: portColourValue_def stateAfter_def demoReads_def applyPortState_def Let_def)
qed

section \<open>The topology store: removing a model, updating a port\<close>

text \<open>
  C4. With a topology loaded, \<open>removeModelInstance\<close> replaces it by the topology without
  the models whose id is the given one and without the connections whose source or target
  model is the given one; all other models and connections stay, in their order, and the
  topology keeps its id and name. With no topology loaded the store is unchanged.
\<close>

theorem removeModelInstance_topology:
  "(case currentTopology st of
      None \<Rightarrow> removeModelInstance mid st = st
    | Some topo \<Rightarrow>
        (\<exists>topo'. currentTopology (removeModelInstance mid st) = Some topo'
           \<and> models topo' = filter (\<lambda>m. id_mi m \<noteq> mid) (models topo)
           \<and> connections topo' =
               filter (\<lambda>c. modelId (source_cc c) \<noteq> mid \<and> modelId (target_cc c) \<noteq> mid)
                 (connections topo)
           \<and> set (models topo') = {m \<in> set (models topo). id_mi m \<noteq> mid}
           \<and> set (connections topo') =
               {c \<in> set (connections topo).
                  modelId (source_cc c) \<noteq> mid \<and> modelId (target_cc c) \<noteq> mid}
           \<and> subseq (models topo') (models topo)
           \<and> subseq (connections topo') (connections topo)
           \<and> id_tl topo' = id_tl topo \<and> name_tl topo' = name_tl topo))"
  by (auto simp: removeModelInstance_def clearSelectedObject_def Let_def split: option.splits)

theorem removeModelInstance_topology_witness:
  "currentTopology demoStore = Some demoTopology
   \<and> (\<exists>topo'. currentTopology (removeModelInstance ''sw1'' demoStore) = Some topo'
         \<and> models topo' = [demoModel ''sw2'', demoModel ''sw3'']
         \<and> connections topo' = [demoConnection ''c2'' ''sw2'' ''sw3''])
   \<and> removeModelInstance ''sw1'' (demoStore\<lparr>currentTopology := None\<rparr>)
       = demoStore\<lparr>currentTopology := None\<rparr>"
  using removeModelInstance_topology [where st = demoStore and mid = "''sw1''"]
    removeModelInstance_topology
      [where st = "demoStore\<lparr>currentTopology := None\<rparr>" and mid = "''sw1''"]
  by (auto simp: demoStore_def demoTopology_def demoModel_def demoConnection_def)

lemma findIndex_bounds: "- 1 \<le> findIndex P xs \<and> findIndex P xs < int (length xs)"
  by (induction xs) (auto simp: Let_def)

lemma findIndex_found: "findIndex P xs > - 1 \<Longrightarrow> P (xs ! nat (findIndex P xs))"
proof (induction xs)
  case Nil
  then show ?case by simp
next
  case (Cons a xs)
  show ?case
  proof (cases "P a")
    case True
    then show ?thesis by simp
  next
    case False
    with Cons.prems have pos: "findIndex P xs > - 1"
      by (auto simp: Let_def split: if_splits)
    have "0 \<le> findIndex P xs" using pos by arith
    then have "nat (findIndex P xs + 1) = Suc (nat (findIndex P xs))" by arith
    with False pos Cons.IH show ?thesis by (auto simp: Let_def)
  qed
qed

lemma findIndex_none: "findIndex P xs > - 1 \<longleftrightarrow> (\<exists>x \<in> set xs. P x)"
proof (induction xs)
  case Nil
  then show ?case by simp
next
  case (Cons a xs)
  then show ?case
    using findIndex_bounds [of P xs] by (auto simp: Let_def)
qed

text \<open>
  C6. \<open>updatePortState\<close> changes at most the \<open>status\<close> and \<open>blinking\<close> fields of one
  port, the first port named \<open>portName\<close> of the first model with id \<open>mid\<close>: the
  topology's other fields (id, name, connections), every other model, every other field of
  that model, every other port and the other fields of that port are as before; the rest of
  the store is as before; and when no model with that id has a port of that name the
  topology is unchanged.
\<close>

theorem updatePortState_frame:
  "(case currentTopology st of
      None \<Rightarrow> updatePortState mid portName newStatus newBlinking st = st
    | Some topo \<Rightarrow>
        (\<exists>topo'.
           updatePortState mid portName newStatus newBlinking st
             = st\<lparr>currentTopology := Some topo'\<rparr>
         \<and> topo' = topo\<lparr>models := models topo'\<rparr>
         \<and> length (models topo') = length (models topo)
         \<and> (\<forall>i < length (models topo).
               models topo' ! i = (models topo ! i)\<lparr>ports := ports (models topo' ! i)\<rparr>
             \<and> length (ports (models topo' ! i)) = length (ports (models topo ! i))
             \<and> (\<forall>j < length (ports (models topo ! i)).
                   ports (models topo' ! i) ! j = ports (models topo ! i) ! j
                 \<or> (int i = findIndex (\<lambda>m. id_mi m = mid) (models topo)
                    \<and> int j = findIndex (\<lambda>p. name_ps p = portName) (ports (models topo ! i))
                    \<and> id_mi (models topo ! i) = mid
                    \<and> name_ps (ports (models topo ! i) ! j) = portName
                    \<and> ports (models topo' ! i) ! j
                        = (ports (models topo ! i) ! j)
                            \<lparr>status := newStatus, blinking_ps := newBlinking\<rparr>)))
         \<and> (\<forall>i j. int i = findIndex (\<lambda>m. id_mi m = mid) (models topo)
                \<and> int j = findIndex (\<lambda>p. name_ps p = portName) (ports (models topo ! i))
              \<longrightarrow> ports (models topo' ! i) ! j
                    = (ports (models topo ! i) ! j)
                        \<lparr>status := newStatus, blinking_ps := newBlinking\<rparr>)
         \<and> ((\<forall>m \<in> set (models topo).
                 id_mi m = mid \<longrightarrow> (\<forall>p \<in> set (ports m). name_ps p \<noteq> portName))
              \<longrightarrow> topo' = topo)))"
proof (cases "currentTopology st")
  case None
  then show ?thesis by (simp add: updatePortState_def)
next
  case (Some topo)
  let ?mi = "findIndex (\<lambda>m. id_mi m = mid) (models topo)"
  let ?m = "models topo ! nat ?mi"
  let ?pi = "findIndex (\<lambda>p. name_ps p = portName) (ports ?m)"
  have same: "st\<lparr>currentTopology := Some topo\<rparr> = st" using Some by simp
  show ?thesis
  proof (cases "?mi > - 1 \<and> ?pi > - 1")
    case False
    then have "updatePortState mid portName newStatus newBlinking st = st"
      using Some by (auto simp: updatePortState_def Let_def)
    then have unch: "updatePortState mid portName newStatus newBlinking st
                 = st\<lparr>currentTopology := Some topo\<rparr>"
      using same by simp
    have nofire: "\<not> (int i = ?mi
        \<and> int j = findIndex (\<lambda>p. name_ps p = portName) (ports (models topo ! i)))" for i j
    proof
      assume a: "int i = ?mi
        \<and> int j = findIndex (\<lambda>p. name_ps p = portName) (ports (models topo ! i))"
      then have "?mi > - 1" by arith
      moreover have "i = nat ?mi" using a by arith
      then have "int j = ?pi" using a by simp
      then have "?pi > - 1" by arith
      ultimately show False using False by simp
    qed
    show ?thesis
      apply (simp only: Some option.case)
      apply (rule exI [of _ topo])
      apply (intro conjI)
      subgoal using unch .
      subgoal by simp
      subgoal by simp
      subgoal by simp
      subgoal using nofire by blast
      subgoal by simp
      done
  next
    case True
    then have mi: "?mi > - 1" and pi: "?pi > - 1" by simp_all
    have mlt: "nat ?mi < length (models topo)"
      using findIndex_bounds [of "\<lambda>m. id_mi m = mid" "models topo"] mi by arith
    have plt: "nat ?pi < length (ports ?m)"
      using findIndex_bounds [of "\<lambda>p. name_ps p = portName" "ports ?m"] pi by arith
    have mid: "id_mi ?m = mid" using findIndex_found [OF mi] .
    have pn: "name_ps (ports ?m ! nat ?pi) = portName" using findIndex_found [OF pi] .
    have min: "?m \<in> set (models topo)" using mlt by simp
    have pin: "ports ?m ! nat ?pi \<in> set (ports ?m)" using plt by simp
    let ?topo' = "topo\<lparr>models := (models topo)
                     [nat ?mi := ?m\<lparr>ports := (ports ?m)
                        [nat ?pi := (ports ?m ! nat ?pi)
                           \<lparr>status := newStatus, blinking_ps := newBlinking\<rparr>]\<rparr>]\<rparr>"
    have upd: "updatePortState mid portName newStatus newBlinking st
                 = st\<lparr>currentTopology := Some ?topo'\<rparr>"
      using Some mi pi by (simp add: updatePortState_def Let_def)
    have frame: "\<forall>i < length (models topo).
               models ?topo' ! i = (models topo ! i)\<lparr>ports := ports (models ?topo' ! i)\<rparr>
             \<and> length (ports (models ?topo' ! i)) = length (ports (models topo ! i))
             \<and> (\<forall>j < length (ports (models topo ! i)).
                   ports (models ?topo' ! i) ! j = ports (models topo ! i) ! j
                 \<or> (int i = ?mi
                    \<and> int j = findIndex (\<lambda>p. name_ps p = portName) (ports (models topo ! i))
                    \<and> id_mi (models topo ! i) = mid
                    \<and> name_ps (ports (models topo ! i) ! j) = portName
                    \<and> ports (models ?topo' ! i) ! j
                        = (ports (models topo ! i) ! j)
                            \<lparr>status := newStatus, blinking_ps := newBlinking\<rparr>))"
    proof (intro allI impI)
      fix i assume i: "i < length (models topo)"
      show "models ?topo' ! i = (models topo ! i)\<lparr>ports := ports (models ?topo' ! i)\<rparr>
             \<and> length (ports (models ?topo' ! i)) = length (ports (models topo ! i))
             \<and> (\<forall>j < length (ports (models topo ! i)).
                   ports (models ?topo' ! i) ! j = ports (models topo ! i) ! j
                 \<or> (int i = ?mi
                    \<and> int j = findIndex (\<lambda>p. name_ps p = portName) (ports (models topo ! i))
                    \<and> id_mi (models topo ! i) = mid
                    \<and> name_ps (ports (models topo ! i) ! j) = portName
                    \<and> ports (models ?topo' ! i) ! j
                        = (ports (models topo ! i) ! j)
                            \<lparr>status := newStatus, blinking_ps := newBlinking\<rparr>))"
      proof (cases "i = nat ?mi")
        case False
        then show ?thesis using i by simp
      next
        case True
        have ii: "int i = ?mi" using True mi by arith
        show ?thesis
        proof (intro conjI allI impI)
          show "models ?topo' ! i = (models topo ! i)\<lparr>ports := ports (models ?topo' ! i)\<rparr>"
            using True mlt by simp
          show "length (ports (models ?topo' ! i)) = length (ports (models topo ! i))"
            using True mlt by simp
        next
          fix j assume j: "j < length (ports (models topo ! i))"
          show "ports (models ?topo' ! i) ! j = ports (models topo ! i) ! j
                 \<or> (int i = ?mi
                    \<and> int j = findIndex (\<lambda>p. name_ps p = portName) (ports (models topo ! i))
                    \<and> id_mi (models topo ! i) = mid
                    \<and> name_ps (ports (models topo ! i) ! j) = portName
                    \<and> ports (models ?topo' ! i) ! j
                        = (ports (models topo ! i) ! j)
                            \<lparr>status := newStatus, blinking_ps := newBlinking\<rparr>)"
          proof (cases "j = nat ?pi")
            case False
            then show ?thesis using True mlt j by simp
          next
            case jt: True
            have jj: "int j = ?pi" using jt pi by arith
            show ?thesis using True jt ii jj mlt plt mid pn by simp
          qed
        qed
      qed
    qed
    have fire: "ports (models ?topo' ! i) ! j
                    = (ports (models topo ! i) ! j)
                        \<lparr>status := newStatus, blinking_ps := newBlinking\<rparr>"
      if "int i = ?mi
        \<and> int j = findIndex (\<lambda>p. name_ps p = portName) (ports (models topo ! i))" for i j
    proof -
      have i: "i = nat ?mi" using that by arith
      have "int j = ?pi" using that i by simp
      then have j: "j = nat ?pi" by arith
      show ?thesis using i j mlt plt by simp
    qed
    have nochange: "\<not> (\<forall>m \<in> set (models topo).
                 id_mi m = mid \<longrightarrow> (\<forall>p \<in> set (ports m). name_ps p \<noteq> portName))"
      using min pin mid pn by blast
    show ?thesis
      apply (simp only: Some option.case)
      apply (rule exI [of _ ?topo'])
      apply (intro conjI)
      subgoal using upd .
      subgoal by simp
      subgoal by simp
      subgoal using frame .
      subgoal using fire by blast
      subgoal using nochange by blast
      done
  qed
qed



theorem updatePortState_frame_witness:
  "currentTopology demoStore = Some demoTopology
   \<and> updatePortState ''sw2'' ''P2_Indicator'' ''active'' True demoStore
     = demoStore\<lparr>currentTopology := Some (demoTopology\<lparr>models :=
         [demoModel ''sw1'',
          (demoModel ''sw2'')\<lparr>ports := [demoPortState ''P1_Indicator'',
             (demoPortState ''P2_Indicator'')\<lparr>status := ''active'', blinking_ps := True\<rparr>]\<rparr>,
          demoModel ''sw3'']\<rparr>)\<rparr>
   \<and> updatePortState ''sw2'' ''P9_Indicator'' ''active'' True demoStore = demoStore"
  using updatePortState_frame [where st = demoStore and mid = "''sw2''"
      and portName = "''P2_Indicator''" and newStatus = "''active''" and newBlinking = True]
    updatePortState_frame [where st = demoStore and mid = "''sw2''"
      and portName = "''P9_Indicator''" and newStatus = "''active''" and newBlinking = True]
  by (simp add: demoStore_def demoTopology_def demoModel_def demoPortState_def
        updatePortState_def Let_def)

lemma map_of_map_value:
  "map_of (map (\<lambda>(k, v). (k, f v)) xs) k = map_option f (map_of xs k)"
  by (induction xs) auto

lemma portInfoOf_updateBlinkingPorts:
  "portInfoOf (updateBlinkingPorts now s) m p
     = map_option (updateBlinkingPort now) (portInfoOf s m p)"
  by (simp add: portInfoOf_def updateBlinkingPorts_def map_of_map_value split: option.splits)

lemma portInfoOf_updateScene:
  "portInfoOf (updateScene now s) m p = map_option (updateBlinkingPort now) (portInfoOf s m p)"
  using portInfoOf_updateBlinkingPorts [of now s m p]
  by (simp add: updateScene_def Let_def portInfoOf_def)

section \<open>Blinking\<close>

text \<open>
  C5, as the code has it. One \<open>updateScene\<close> call at clock reading \<open>now\<close> leaves a port
  whose blinking flag is not true exactly as it was. A port whose blinking flag is true is
  left as it was when a toggle is recorded for it at a reading \<open>t\<close> other than \<open>0\<close> and
  no more than \<open>BLINK_INTERVAL\<close> (500 ms) has elapsed since; it is toggled when no toggle
  is recorded, when the recorded reading is \<open>0\<close>, or when more than \<open>BLINK_INTERVAL\<close> has
  elapsed. A toggle negates \<open>blinkOn\<close>, records \<open>now\<close>, and for the states \<open>active\<close> and
  \<open>error\<close> sets the emissive to the bright value of the state colour when \<open>blinkOn\<close> is
  now true and to the dim value otherwise, so that successive toggles alternate between
  the two; nothing else of the port changes.
\<close>

theorem updateScene_blinking:
  assumes "portInfoOf s m p = Some portInfo"
  shows "\<exists>portInfo'.
      portInfoOf (updateScene now s) m p = Some portInfo'
    \<and> (blinking portInfo \<noteq> Some True \<longrightarrow> portInfo' = portInfo)
    \<and> (blinking portInfo = Some True
         \<and> (\<exists>t. lastBlinkTime portInfo = Some t \<and> t \<noteq> 0 \<and> now - t \<le> BLINK_INTERVAL)
        \<longrightarrow> portInfo' = portInfo)
    \<and> (blinking portInfo = Some True
         \<and> (lastBlinkTime portInfo = None \<or> lastBlinkTime portInfo = Some 0
              \<or> (\<exists>t. lastBlinkTime portInfo = Some t \<and> now - t > BLINK_INTERVAL))
        \<longrightarrow> blinkOn portInfo' = Some (blinkOn portInfo \<noteq> Some True)
          \<and> lastBlinkTime portInfo' = Some now
          \<and> (currentState portInfo = Some ''active'' \<longrightarrow>
                emissive (mesh portInfo')
                  = (if blinkOn portInfo' = Some True then Hex 0x00ff00 else Hex 0x003300))
          \<and> (currentState portInfo = Some ''error'' \<longrightarrow>
                emissive (mesh portInfo')
                  = (if blinkOn portInfo' = Some True then Hex 0xff0000 else Hex 0x330000))
          \<and> (currentState portInfo \<noteq> Some ''active'' \<and> currentState portInfo \<noteq> Some ''error''
                \<longrightarrow> emissive (mesh portInfo') = emissive (mesh portInfo))
          \<and> color (mesh portInfo') = color (mesh portInfo)
          \<and> currentState portInfo' = currentState portInfo
          \<and> blinking portInfo' = blinking portInfo)"
proof -
  have eq: "portInfoOf (updateScene now s) m p = Some (updateBlinkingPort now portInfo)"
    using assms by (simp add: portInfoOf_updateScene)
  show ?thesis
    apply (rule exI [of _ "updateBlinkingPort now portInfo"])
    using eq
    by (auto simp: updateBlinkingPort_def Let_def split: option.splits)
qed

lemma blinking_start:
  "portInfoOf blinkingScene ''sw1'' ''P1_Indicator'' = Some (applyPortState ''active'' True demoPort)"
  using portInfoOf_setPortState [OF demo_port, of "''active''" True]
  by (auto simp: blinkingScene_def stateAfter_def)

lemma blinking_other:
  "portInfoOf blinkingScene ''sw2'' ''P1_Indicator'' = Some demoPort"
  by (simp add: blinkingScene_def stateAfter_def setPortState_def getMember_def demoScene_def
        portInfoOf_def updateCableVisualsForPort_def)

theorem updateScene_blinking_witness:
  "(\<exists>q0. portInfoOf blinkingScene ''sw1'' ''P1_Indicator'' = Some q0
         \<and> blinking q0 = Some True \<and> lastBlinkTime q0 = None \<and> currentState q0 = Some ''active'')
   \<and> (\<exists>q1. portInfoOf (updateScene 1000 blinkingScene) ''sw1'' ''P1_Indicator'' = Some q1
         \<and> blinkOn q1 = Some True \<and> lastBlinkTime q1 = Some 1000
         \<and> emissive (mesh q1) = Hex 0x00ff00)
   \<and> portInfoOf (updateScene 1400 (updateScene 1000 blinkingScene)) ''sw1'' ''P1_Indicator''
       = portInfoOf (updateScene 1000 blinkingScene) ''sw1'' ''P1_Indicator''
   \<and> (\<exists>q3. portInfoOf (updateScene 1501 (updateScene 1400 (updateScene 1000 blinkingScene)))
              ''sw1'' ''P1_Indicator'' = Some q3
         \<and> blinkOn q3 = Some False \<and> lastBlinkTime q3 = Some 1501
         \<and> emissive (mesh q3) = Hex 0x003300)
   \<and> portInfoOf (updateScene 1000 blinkingScene) ''sw2'' ''P1_Indicator'' = Some demoPort"
proof -
  let ?q0 = "applyPortState ''active'' True demoPort"
  let ?s1 = "updateScene 1000 blinkingScene"
  let ?s2 = "updateScene 1400 ?s1"
  have f0: "blinking ?q0 = Some True" "lastBlinkTime ?q0 = None"
      "currentState ?q0 = Some ''active''" "blinkOn ?q0 = None"
    by (simp_all add: applyPortState_def demoPort_def)
  from updateScene_blinking [OF blinking_start, of 1000] f0
  obtain q1 where q1: "portInfoOf ?s1 ''sw1'' ''P1_Indicator'' = Some q1"
      "blinkOn q1 = Some True" "lastBlinkTime q1 = Some 1000"
      "emissive (mesh q1) = Hex 0x00ff00" "currentState q1 = Some ''active''"
      "blinking q1 = Some True"
    by auto
  from updateScene_blinking [OF q1(1), of 1400] q1
  have q2: "portInfoOf ?s2 ''sw1'' ''P1_Indicator'' = Some q1"
    by (auto simp: BLINK_INTERVAL_def)
  from updateScene_blinking [OF q2, of 1501] q1
  obtain q3 where q3: "portInfoOf (updateScene 1501 ?s2) ''sw1'' ''P1_Indicator'' = Some q3"
      "blinkOn q3 = Some False" "lastBlinkTime q3 = Some 1501"
      "emissive (mesh q3) = Hex 0x003300"
    by (auto simp: BLINK_INTERVAL_def)
  from updateScene_blinking [OF blinking_other, of 1000]
  have o: "portInfoOf ?s1 ''sw2'' ''P1_Indicator'' = Some demoPort"
    by (auto simp: demoPort_def)
  show ?thesis using blinking_start f0 q1 q2 q3 o by auto
qed

text \<open>C5 as stated fails after a toggle made at clock reading 0: the port toggles again
  100 ms later.\<close>

theorem updateScene_epoch_toggle_counterexample:
  "map_option blinking (portInfoOf blinkingScene ''sw1'' ''P1_Indicator'') = Some (Some True)
   \<and> map_option lastBlinkTime (portInfoOf (updateScene 0 blinkingScene) ''sw1'' ''P1_Indicator'')
       = Some (Some 0)
   \<and> map_option blinkOn (portInfoOf (updateScene 0 blinkingScene) ''sw1'' ''P1_Indicator'')
       = Some (Some True)
   \<and> map_option blinkOn
        (portInfoOf (updateScene 100 (updateScene 0 blinkingScene)) ''sw1'' ''P1_Indicator'')
       = Some (Some False)
   \<and> map_option lastBlinkTime
        (portInfoOf (updateScene 100 (updateScene 0 blinkingScene)) ''sw1'' ''P1_Indicator'')
       = Some (Some 100)
   \<and> 100 - 0 < BLINK_INTERVAL"
  by (simp add: portInfoOf_updateScene blinking_start updateBlinkingPort_def applyPortState_def
        demoPort_def Let_def BLINK_INTERVAL_def)

section \<open>Picking\<close>

lemma hasMember_iff:
  "hasMember obj name \<longleftrightarrow> map_of obj name \<noteq> None \<or> name \<in> set inheritedMembers"
  by (auto simp: hasMember_def getMember_def split: option.splits)

lemma indicator_not_inherited:
  "endsWith name ''_Indicator'' \<Longrightarrow> name \<notin> set inheritedMembers"
  by (auto simp: inheritedMembers_def endsWith_def)

lemma findParentModel_found:
  assumes "\<forall>n \<in> set between. \<not> hasMember loaded n" and "hasMember loaded m"
  shows "findParentModel loaded (between @ m # outer) = Some m"
  using assms by (induction between) auto

lemma findParentModel_none:
  assumes "\<forall>n \<in> set ns. \<not> hasMember loaded n"
  shows "findParentModel loaded ns = None"
  using assms by (induction ns) auto

lemma walkUp_skip:
  assumes "\<forall>n \<in> set inner. \<not> hasMember loaded n \<and> \<not> endsWith n ''_Indicator''"
  shows "walkUp loaded (inner @ rest) = walkUp loaded rest"
  using assms by (induction inner) auto

lemma walkUp_no_model:
  assumes "\<forall>n \<in> set chain. \<not> hasMember loaded n"
  shows "fst (walkUp loaded chain) = None"
  using assms by (induction chain) (auto simp: findParentModel_none)

lemma onCanvasClick_at_most_one: "length (onCanvasClick intersects s) \<le> 1"
  by (auto simp: onCanvasClick_def split: list.splits prod.splits option.splits)

text \<open>
  C2, as the code has it. A click whose ray hits something sends at most one event. Going
  up from the hit object, the first object whose name is found in the loaded models or
  ends in \<open>_Indicator\<close> decides. If its name \<open>m\<close> is the id of a loaded model, the event
  is \<open>(m, m, device)\<close>, and nothing is sent when \<open>m\<close> is the empty string. If it is an
  indicator \<open>p\<close> and the nearest object above it found in the loaded models is the model
  with id \<open>m\<close>, the event is \<open>(m, p, port)\<close>, and nothing is sent when \<open>m\<close> is the empty
  string. If no name on the chain is the id of a loaded model or the name of a member that
  every object inherits, no event is sent. The viewer stores every event sent, unchanged,
  as the store's selected object.
\<close>

theorem onCanvasClick_selection:
  "length (onCanvasClick intersects s) \<le> 1
   \<and> (\<forall>inner m outer.
         chain = inner @ m # outer
         \<and> (\<forall>n \<in> set inner. \<not> isLoadedModel s n \<and> n \<notin> set inheritedMembers
                              \<and> \<not> endsWith n ''_Indicator'')
         \<and> isLoadedModel s m
         \<longrightarrow> onCanvasClick (chain # others) s
               = (if m = [] then []
                  else [\<lparr>modelId_sel = m, objectName = m, objectType = Device\<rparr>]))
   \<and> (\<forall>inner p between m outer.
         chain = inner @ p # between @ m # outer
         \<and> (\<forall>n \<in> set inner. \<not> isLoadedModel s n \<and> n \<notin> set inheritedMembers
                              \<and> \<not> endsWith n ''_Indicator'')
         \<and> \<not> isLoadedModel s p \<and> endsWith p ''_Indicator''
         \<and> (\<forall>n \<in> set between. \<not> isLoadedModel s n \<and> n \<notin> set inheritedMembers)
         \<and> isLoadedModel s m
         \<longrightarrow> onCanvasClick (chain # others) s
               = (if m = [] then []
                  else [\<lparr>modelId_sel = m, objectName = p, objectType = Port\<rparr>]))
   \<and> ((\<forall>n \<in> set chain. \<not> isLoadedModel s n \<and> n \<notin> set inheritedMembers)
         \<longrightarrow> onCanvasClick (chain # others) s = [])
   \<and> onCanvasClick [] s = []
   \<and> canvasClicked intersects s st
       = (case onCanvasClick intersects s of
            [] \<Rightarrow> st
          | selected # further \<Rightarrow> st\<lparr>selectedObject := Some selected\<rparr>)"
proof (intro conjI allI impI)
  show "length (onCanvasClick intersects s) \<le> 1" by (rule onCanvasClick_at_most_one)
next
  fix inner m outer
  assume a: "chain = inner @ m # outer
         \<and> (\<forall>n \<in> set inner. \<not> isLoadedModel s n \<and> n \<notin> set inheritedMembers
                              \<and> \<not> endsWith n ''_Indicator'')
         \<and> isLoadedModel s m"
  then have skip: "\<forall>n \<in> set inner. \<not> hasMember (loadedModels s) n \<and> \<not> endsWith n ''_Indicator''"
    by (simp add: hasMember_iff isLoadedModel_def)
  have hm: "hasMember (loadedModels s) m" using a by (simp add: hasMember_iff isLoadedModel_def)
  have "walkUp (loadedModels s) chain = (Some m, None, Some Device)"
    using a hm walkUp_skip [OF skip] by simp
  then show "onCanvasClick (chain # others) s
               = (if m = [] then []
                  else [\<lparr>modelId_sel = m, objectName = m, objectType = Device\<rparr>])"
    by (simp add: onCanvasClick_def truthy_def)
next
  fix inner p between m outer
  assume a: "chain = inner @ p # between @ m # outer
         \<and> (\<forall>n \<in> set inner. \<not> isLoadedModel s n \<and> n \<notin> set inheritedMembers
                              \<and> \<not> endsWith n ''_Indicator'')
         \<and> \<not> isLoadedModel s p \<and> endsWith p ''_Indicator''
         \<and> (\<forall>n \<in> set between. \<not> isLoadedModel s n \<and> n \<notin> set inheritedMembers)
         \<and> isLoadedModel s m"
  then have skip: "\<forall>n \<in> set inner. \<not> hasMember (loadedModels s) n \<and> \<not> endsWith n ''_Indicator''"
    by (simp add: hasMember_iff isLoadedModel_def)
  have hm: "hasMember (loadedModels s) m" using a by (simp add: hasMember_iff isLoadedModel_def)
  have np: "\<not> hasMember (loadedModels s) p"
    using a by (simp add: hasMember_iff isLoadedModel_def indicator_not_inherited)
  have btw: "\<forall>n \<in> set between. \<not> hasMember (loadedModels s) n"
    using a by (simp add: hasMember_iff isLoadedModel_def)
  have fp: "findParentModel (loadedModels s) (between @ m # outer) = Some m"
    using findParentModel_found [OF btw hm] .
  have pne: "p \<noteq> []" using a by (auto simp: endsWith_def)
  have "walkUp (loadedModels s) chain = (Some m, Some p, Some Port)"
    using a np fp walkUp_skip [OF skip] by simp
  then show "onCanvasClick (chain # others) s
               = (if m = [] then []
                  else [\<lparr>modelId_sel = m, objectName = p, objectType = Port\<rparr>])"
    using pne by (simp add: onCanvasClick_def truthy_def)
next
  assume "\<forall>n \<in> set chain. \<not> isLoadedModel s n \<and> n \<notin> set inheritedMembers"
  then have "\<forall>n \<in> set chain. \<not> hasMember (loadedModels s) n"
    by (simp add: hasMember_iff isLoadedModel_def)
  then have "fst (walkUp (loadedModels s) chain) = None" by (rule walkUp_no_model)
  then show "onCanvasClick (chain # others) s = []"
    by (auto simp: onCanvasClick_def truthy_def split: prod.splits)
next
  show "onCanvasClick [] s = []" by (simp add: onCanvasClick_def)
next
  have "length (onCanvasClick intersects s) \<le> 1" by (rule onCanvasClick_at_most_one)
  then show "canvasClicked intersects s st
       = (case onCanvasClick intersects s of
            [] \<Rightarrow> st
          | selected # further \<Rightarrow> st\<lparr>selectedObject := Some selected\<rparr>)"
    by (cases "onCanvasClick intersects s")
       (auto simp: canvasClicked_def onObjectSelected_next_def setSelectedObject_def)
qed

theorem onCanvasClick_selection_witness:
  "isLoadedModel demoScene ''sw1''
   \<and> onCanvasClick [[''Chassis_Mesh'', ''Chassis'', ''sw1''], [''Floor'']] demoScene
       = [\<lparr>modelId_sel = ''sw1'', objectName = ''sw1'', objectType = Device\<rparr>]
   \<and> onCanvasClick [[''Lens'', ''P1_Indicator'', ''Ports'', ''sw2'']] demoScene
       = [\<lparr>modelId_sel = ''sw2'', objectName = ''P1_Indicator'', objectType = Port\<rparr>]
   \<and> onCanvasClick [[''P1_Indicator'', ''Spare_Parts'']] demoScene = []
   \<and> isLoadedModel emptyIdScene ''''
   \<and> onCanvasClick [[''Body'', '''']] emptyIdScene = []
   \<and> canvasClicked [[''Lens'', ''P1_Indicator'', ''Ports'', ''sw2'']] demoScene demoStore0
       = demoStore0\<lparr>selectedObject :=
           Some \<lparr>modelId_sel = ''sw2'', objectName = ''P1_Indicator'', objectType = Port\<rparr>\<rparr>"
proof -
  note t1 = onCanvasClick_selection
      [where s = demoScene and chain = "[''Chassis_Mesh'', ''Chassis'', ''sw1'']"
         and others = "[[''Floor'']]"]
  note t2 = onCanvasClick_selection
      [where s = demoScene and chain = "[''Lens'', ''P1_Indicator'', ''Ports'', ''sw2'']"
         and others = "[]" and st = demoStore0
         and intersects = "[[''Lens'', ''P1_Indicator'', ''Ports'', ''sw2'']]"]
  note t3 = onCanvasClick_selection
      [where s = demoScene and chain = "[''P1_Indicator'', ''Spare_Parts'']" and others = "[]"]
  note t4 = onCanvasClick_selection
      [where s = emptyIdScene and chain = "[''Body'', '''']" and others = "[]"]
  have l1: "isLoadedModel demoScene ''sw1''" "isLoadedModel demoScene ''sw2''"
    "isLoadedModel emptyIdScene ''''"
    by (simp_all add: isLoadedModel_def demoScene_def emptyIdScene_def)
  have n1: "\<forall>n \<in> set [''Chassis_Mesh'', ''Chassis''].
              \<not> isLoadedModel demoScene n \<and> n \<notin> set inheritedMembers
              \<and> \<not> endsWith n ''_Indicator''"
    by (simp add: isLoadedModel_def demoScene_def inheritedMembers_def endsWith_def)
  from t1 [THEN conjunct2, THEN conjunct1, rule_format,
        of "[''Chassis_Mesh'', ''Chassis'']" "''sw1''" "[]"] n1 l1
  have d: "onCanvasClick [[''Chassis_Mesh'', ''Chassis'', ''sw1''], [''Floor'']] demoScene
       = [\<lparr>modelId_sel = ''sw1'', objectName = ''sw1'', objectType = Device\<rparr>]"
    by simp
  have n2: "(\<forall>n \<in> set [''Lens'']. \<not> isLoadedModel demoScene n \<and> n \<notin> set inheritedMembers
              \<and> \<not> endsWith n ''_Indicator'')
     \<and> \<not> isLoadedModel demoScene ''P1_Indicator''
     \<and> endsWith ''P1_Indicator'' ''_Indicator''
     \<and> (\<forall>n \<in> set [''Ports'']. \<not> isLoadedModel demoScene n \<and> n \<notin> set inheritedMembers)"
    by (simp add: isLoadedModel_def demoScene_def inheritedMembers_def endsWith_def)
  from t2 [THEN conjunct2, THEN conjunct2, THEN conjunct1, rule_format,
        of "[''Lens'']" "''P1_Indicator''" "[''Ports'']" "''sw2''" "[]"] n2 l1
  have p: "onCanvasClick [[''Lens'', ''P1_Indicator'', ''Ports'', ''sw2'']] demoScene
       = [\<lparr>modelId_sel = ''sw2'', objectName = ''P1_Indicator'', objectType = Port\<rparr>]"
    by simp
  have n3: "\<forall>n \<in> set [''P1_Indicator'', ''Spare_Parts''].
              \<not> isLoadedModel demoScene n \<and> n \<notin> set inheritedMembers"
    by (simp add: isLoadedModel_def demoScene_def inheritedMembers_def)
  from t3 [THEN conjunct2, THEN conjunct2, THEN conjunct2, THEN conjunct1] n3
  have e: "onCanvasClick [[''P1_Indicator'', ''Spare_Parts'']] demoScene = []" by blast
  have n4: "\<forall>n \<in> set [''Body''].
              \<not> isLoadedModel emptyIdScene n \<and> n \<notin> set inheritedMembers
              \<and> \<not> endsWith n ''_Indicator''"
    by (simp add: isLoadedModel_def emptyIdScene_def inheritedMembers_def endsWith_def)
  from t4 [THEN conjunct2, THEN conjunct1, rule_format, of "[''Body'']" "''''" "[]"] n4 l1
  have z: "onCanvasClick [[''Body'', '''']] emptyIdScene = []" by simp
  from t2 p
  have f: "canvasClicked [[''Lens'', ''P1_Indicator'', ''Ports'', ''sw2'']] demoScene demoStore0
       = demoStore0\<lparr>selectedObject :=
           Some \<lparr>modelId_sel = ''sw2'', objectName = ''P1_Indicator'', objectType = Port\<rparr>\<rparr>"
    by simp
  show ?thesis using l1 d p e z f by simp
qed

text \<open>C2 as stated fails for a loaded model whose id is the empty string: the click is
  resolved to that model, and nothing is sent.\<close>

theorem onCanvasClick_empty_id_counterexample:
  "isLoadedModel emptyIdScene ''''
   \<and> \<not> isLoadedModel emptyIdScene ''Body'' \<and> \<not> endsWith ''Body'' ''_Indicator''
   \<and> walkUp (loadedModels emptyIdScene) [''Body'', ''''] = (Some '''', None, Some Device)
   \<and> onCanvasClick [[''Body'', '''']] emptyIdScene = []"
  by (simp add: isLoadedModel_def emptyIdScene_def onCanvasClick_def endsWith_def truthy_def
        hasMember_def getMember_def inheritedMembers_def)

text \<open>An object named like a member that every object inherits is taken for a loaded
  model, although no such model is loaded.\<close>

lemma onCanvasClick_inherited_name:
  "\<not> isLoadedModel demoScene ''toString''
   \<and> onCanvasClick [[''toString'', ''Rack'']] demoScene
       = [\<lparr>modelId_sel = ''toString'', objectName = ''toString'', objectType = Device\<rparr>]"
  by (simp add: isLoadedModel_def demoScene_def onCanvasClick_def endsWith_def truthy_def
        hasMember_def getMember_def inheritedMembers_def)

section \<open>Cables\<close>

lemma scene_updateCableVisualsForPort [simp]:
  "scene (updateCableVisualsForPort m p s) = scene s"
  by (simp add: updateCableVisualsForPort_def)

lemma nextObject_updateCableVisualsForPort [simp]:
  "nextObject (updateCableVisualsForPort m p s) = nextObject s"
  by (simp add: updateCableVisualsForPort_def)

lemma cables_updateCableVisualsForPort:
  "map_of (cables (updateCableVisualsForPort m p s)) c
     = map_option (updateCableVisual (loadedModels s) m p) (map_of (cables s) c)"
  by (simp add: updateCableVisualsForPort_def map_of_map_value)

lemma keys_updateCableVisualsForPort [simp]:
  "map fst (cables (updateCableVisualsForPort m p s)) = map fst (cables s)"
  by (simp add: updateCableVisualsForPort_def comp_def case_prod_unfold)

lemma updateCableVisual_frame:
  "id_ci (updateCableVisual loaded m p cable) = id_ci cable
   \<and> source (updateCableVisual loaded m p cable) = source cable
   \<and> target (updateCableVisual loaded m p cable) = target cable
   \<and> meshId (object_ci (updateCableVisual loaded m p cable)) = meshId (object_ci cable)
   \<and> meshName (object_ci (updateCableVisual loaded m p cable)) = meshName (object_ci cable)
   \<and> height (object_ci (updateCableVisual loaded m p cable)) = height (object_ci cable)
   \<and> position (object_ci (updateCableVisual loaded m p cable)) = position (object_ci cable)
   \<and> axis (object_ci (updateCableVisual loaded m p cable)) = axis (object_ci cable)"
  by (simp add: updateCableVisual_def split: option.splits)











section \<open>Calls that overlap\<close>

text \<open>
  C8 at a failing input. Both models are loaded and \<open>connectCable\<close> is called; while the
  cable asset is loading, \<open>removeModelFromScene\<close> removes the source model; then the load
  settles. The cable is stored although its source model is no longer loaded.
\<close>

theorem connectCable_after_removal_breaks_invariant:
  "cablesReferToLoadedModels demoScene
   \<and> connectCable_start ''cable.glb'' ''c1'' demoSource demoTarget demoScene
       = Some demoPendingCable
   \<and> cablesReferToLoadedModels (removeModelFromScene ''sw1'' demoScene)
   \<and> map fst (loadedModels (removeModelFromScene ''sw1'' demoScene)) = [''sw2'']
   \<and> map fst (cables (connectCable_resume (Some demoGltf) demoPendingCable
                         (removeModelFromScene ''sw1'' demoScene))) = [''c1'']
   \<and> \<not> cablesReferToLoadedModels
         (connectCable_resume (Some demoGltf) demoPendingCable
            (removeModelFromScene ''sw1'' demoScene))"
proof -
  have rm: "removeModelFromScene ''sw1'' demoScene
              = demoScene\<lparr>scene := [Light 0, Light 1, ModelRoot 3 ''sw2'' None None],
                          loadedModels := [(''sw2'', \<lparr>id_lm = ''sw2'', object_lm = 3,
                             portIndicators = [(''P1_Indicator'', demoPort)],
                             portAttachPoints = [(''P1_Attach'', \<lparr>worldPosition = (3, 4, 0)\<rparr>)]\<rparr>)]\<rparr>"
    by (simp add: removeModelFromScene_def demoScene_def sceneRemove_def)
  show ?thesis
    unfolding rm
    by (simp add: cablesReferToLoadedModels_def cableEndsLoaded_def demoScene_def
          connectCable_start_def connectCable_resume_def demoPendingCable_def demoSource_def
          demoTarget_def updateCableVisualsForPort_def updateCableVisual_def Let_def)
qed

text \<open>
  C9 at a failing input. The same topology, with the one model \<open>sw1\<close>, is delivered twice
  before the first load has settled; both calls pass the test for an id already loaded,
  both loads succeed, and the scene holds two roots named \<open>sw1\<close>.
\<close>

theorem topology_redelivered_while_loading_duplicates_root:
  "map snd (topologyDelivered (Some oneModelTopology) startScene)
     = [Some \<lparr>pendingUrl = ''assets/models/Switch_ModelA.glb'', pendingId = ''sw1'',
              pendingPosition = Some (0, 0, 0), pendingRotation = Some (0, 0, 0, None)\<rparr>]
   \<and> map fst (loadedModels
        (fold (modelSettled (Some demoGltf))
           (topologyDelivered (Some oneModelTopology) startScene
              @ topologyDelivered (Some oneModelTopology) startScene) startScene)) = [''sw1'']
   \<and> filter (isModelRootNamed ''sw1'')
        (scene (fold (modelSettled (Some demoGltf))
           (topologyDelivered (Some oneModelTopology) startScene
              @ topologyDelivered (Some oneModelTopology) startScene) startScene))
     = [ModelRoot 2 ''sw1'' (Some (0, 0, 0)) (Some (0, 0, 0, None)),
        ModelRoot 3 ''sw1'' (Some (0, 0, 0)) (Some (0, 0, 0, None))]"
  by (simp add: topologyDelivered_def oneModelTopology_def startScene_def demoModel_def
        demoPortState_def addModelToScene_start_def modelSettled_def addModelToScene_resume_def
        demoGltf_def traverseChild_def endsWith_def setPortState_def Let_def
        updateCableVisualsForPort_def applyPortState_def hasMember_def getMember_def
        inheritedMembers_def)

section \<open>Calls that do not overlap\<close>

text \<open>What holds of the two \<^verbatim>\<open>async\<close> operations when nothing runs between their two
  parts, and of the synchronous operations.\<close>

lemma addModelToScene_already_loaded:
  assumes "map_of (loadedModels s) modelInstanceId \<noteq> None"
  shows "addModelToScene loaded modelUrl modelInstanceId pos rot s = s"
  using assms by (simp add: addModelToScene_def addModelToScene_start_def hasMember_iff)

lemma addModelToScene_load_error:
  "addModelToScene None modelUrl modelInstanceId pos rot s = s"
  by (simp add: addModelToScene_def addModelToScene_resume_def split: option.splits)

lemma setPortState_returns:
  assumes "m \<notin> set inheritedMembers" and "p \<notin> set inheritedMembers"
  shows "\<exists>s'. setPortState m p st b s = Inr s'"
  using assms
  by (auto simp: setPortState_def getMember_def split: option.splits member.splits)

text \<open>When every indicator mesh of the asset has a standard material, the traversal ends
  without an exception and the model is registered.\<close>

lemma traverse_returns:
  assumes "mid \<notin> set inheritedMembers"
      and "\<forall>child \<in> set nodes.
             endsWith (nodeName child) ''_Indicator'' \<longrightarrow> nodeMesh child \<noteq> Some OtherMaterial"
  shows "\<exists>acc'. traverse mid nodes acc = Inr acc'"
  using assms(2)
proof (induction nodes arbitrary: acc)
  case Nil
  then show ?case by simp
next
  case (Cons child nodes)
  obtain e s where acc: "acc = (e, s)" by (cases acc)
  have "\<exists>acc1. traverseChild mid child acc = Inr acc1"
  proof (cases "nodeMesh child \<noteq> None \<and> endsWith (nodeName child) ''_Indicator''")
    case True
    then obtain mat where mat: "nodeMesh child = Some (Standard mat)"
      using Cons.prems by (cases "nodeMesh child") (auto intro: NodeMaterial.exhaust)
    from True have "nodeName child \<notin> set inheritedMembers"
      by (simp add: indicator_not_inherited)
    from setPortState_returns [OF assms(1) this, of "''inactive''" False s]
    obtain s' where "setPortState mid (nodeName child) ''inactive'' False s = Inr s'" by blast
    then show ?thesis using True mat acc by (simp add: traverseChild_def)
  next
    case False
    then show ?thesis using acc by (auto simp: traverseChild_def)
  qed
  then obtain acc1 where "traverseChild mid child acc = Inr acc1" by blast
  moreover from Cons have "\<exists>acc'. traverse mid nodes acc1 = Inr acc'" by simp
  ultimately show ?case by simp
qed

lemma addModelToScene_resume_registers:
  assumes "pendingId k \<notin> set inheritedMembers"
      and "\<forall>child \<in> set (descendants gltf).
             endsWith (nodeName child) ''_Indicator'' \<longrightarrow> nodeMesh child \<noteq> Some OtherMaterial"
  shows "map_of (loadedModels (addModelToScene_resume (Some gltf) k s)) (pendingId k) \<noteq> None"
proof -
  let ?root = "\<lparr>nodeName = pendingId k, nodeMesh = None,
                 nodeWorldPosition =
                   (case pendingPosition k of None \<Rightarrow> rootWorldPosition gltf | Some p \<Rightarrow> p)\<rparr>"
  have "\<forall>child \<in> set (?root # descendants gltf).
          endsWith (nodeName child) ''_Indicator'' \<longrightarrow> nodeMesh child \<noteq> Some OtherMaterial"
    using assms(2) by simp
  from traverse_returns [OF assms(1) this]
  have "\<exists>acc'. traverse (pendingId k) (?root # descendants gltf)
          (\<lparr>id_lm = pendingId k, object_lm = nextObject s,
            portIndicators = [], portAttachPoints = []\<rparr>,
           s\<lparr>scene := scene s @
                [ModelRoot (nextObject s) (pendingId k) (pendingPosition k) (pendingRotation k)],
             nextObject := Suc (nextObject s)\<rparr>) = Inr acc'" .
  then show ?thesis
    by (auto simp: addModelToScene_resume_def Let_def update_conv' simp del: traverse.simps
          split: prod.splits)
qed

lemma addModelToScene_twice:
  assumes "\<forall>child \<in> set (descendants gltf).
             endsWith (nodeName child) ''_Indicator'' \<longrightarrow> nodeMesh child \<noteq> Some OtherMaterial"
  shows "addModelToScene loaded2 url2 modelInstanceId pos2 rot2
           (addModelToScene (Some gltf) modelUrl modelInstanceId pos rot s)
         = addModelToScene (Some gltf) modelUrl modelInstanceId pos rot s"
proof (cases "hasMember (loadedModels s) modelInstanceId")
  case False
  then have ni: "modelInstanceId \<notin> set inheritedMembers" by (simp add: hasMember_iff)
  let ?k = "\<lparr>pendingUrl = modelUrl, pendingId = modelInstanceId,
             pendingPosition = pos, pendingRotation = rot\<rparr>"
  from False have eq: "addModelToScene (Some gltf) modelUrl modelInstanceId pos rot s
      = addModelToScene_resume (Some gltf) ?k s"
    by (simp add: addModelToScene_def addModelToScene_start_def)
  have "map_of (loadedModels (addModelToScene_resume (Some gltf) ?k s)) modelInstanceId \<noteq> None"
    using addModelToScene_resume_registers [of ?k gltf s] ni assms by simp
  then show ?thesis unfolding eq by (rule addModelToScene_already_loaded)
next
  case True
  then have "addModelToScene (Some gltf) modelUrl modelInstanceId pos rot s = s"
    by (simp add: addModelToScene_def addModelToScene_start_def)
  moreover from True have "addModelToScene loaded2 url2 modelInstanceId pos2 rot2 s = s"
    by (simp add: addModelToScene_def addModelToScene_start_def)
  ultimately show ?thesis by simp
qed

text \<open>An indicator mesh whose material cannot be cloned: the exception ends the
  traversal, the root stays in the scene and no entry is written, so that the same model
  is loaded once more by the next call.\<close>

lemma addModelToScene_traverse_exception:
  "addModelToScene (Some otherMaterialGltf) ''a.glb'' ''sw1'' None None startScene
     = startScene\<lparr>scene := [Light 0, Light 1, ModelRoot 2 ''sw1'' None None], nextObject := 3\<rparr>
   \<and> map (isModelRootNamed ''sw1'')
        (scene (addModelToScene (Some otherMaterialGltf) ''a.glb'' ''sw1'' None None
                 (addModelToScene (Some otherMaterialGltf) ''a.glb'' ''sw1'' None None startScene)))
     = [False, False, True, True]"
  by (simp add: addModelToScene_def addModelToScene_start_def addModelToScene_resume_def
        otherMaterialGltf_def startScene_def traverseChild_def endsWith_def hasMember_def
        getMember_def inheritedMembers_def Let_def)

lemma cablesReferToLoadedModels_iff:
  "cablesReferToLoadedModels s
     \<longleftrightarrow> (\<forall>cableId cable. map_of (cables s) cableId = Some cable
            \<longrightarrow> cableEndsLoaded (loadedModels s) cable)"
proof
  assume a: "cablesReferToLoadedModels s"
  show "\<forall>cableId cable. map_of (cables s) cableId = Some cable
            \<longrightarrow> cableEndsLoaded (loadedModels s) cable"
  proof (intro allI impI)
    fix cableId cable
    assume m: "map_of (cables s) cableId = Some cable"
    then have "cableId \<in> set (map fst (cables s))"
      by (metis map_of_SomeD image_eqI fst_conv set_map)
    with a m show "cableEndsLoaded (loadedModels s) cable"
      by (auto simp: cablesReferToLoadedModels_def list_all_iff)
  qed
next
  assume "\<forall>cableId cable. map_of (cables s) cableId = Some cable
            \<longrightarrow> cableEndsLoaded (loadedModels s) cable"
  then show "cablesReferToLoadedModels s"
    by (auto simp: cablesReferToLoadedModels_def list_all_iff split: option.splits)
qed

lemma dispose_keeps_invariant: "cablesReferToLoadedModels (dispose s)"
  by (simp add: cablesReferToLoadedModels_def dispose_def)

lemma initScene_keeps_invariant:
  "cablesReferToLoadedModels s \<Longrightarrow> cablesReferToLoadedModels (initScene s)"
  by (simp add: cablesReferToLoadedModels_iff initScene_def)

lemma disconnectCable_lookup:
  "map_of (cables (disconnectCable k s)) c = Some cable \<Longrightarrow> map_of (cables s) c = Some cable"
  by (auto simp: disconnectCable_def delete_conv' split: option.splits if_splits)

lemma disconnectCable_gone: "map_of (cables (disconnectCable k s)) k = None"
  by (auto simp: disconnectCable_def delete_conv' split: option.splits)

lemma loadedModels_disconnectCable [simp]:
  "loadedModels (disconnectCable k s) = loadedModels s"
  by (simp add: disconnectCable_def split: option.splits)

lemma disconnectCable_keeps_invariant:
  "cablesReferToLoadedModels s \<Longrightarrow> cablesReferToLoadedModels (disconnectCable k s)"
  unfolding cablesReferToLoadedModels_iff
  using disconnectCable_lookup by (metis loadedModels_disconnectCable)


text \<open>A state that keeps the loaded ids and hands every stored cable on with the same
  two ends keeps the invariant.\<close>

lemma invariant_carried:
  assumes "cablesReferToLoadedModels s"
      and "\<And>n. map_of (loadedModels s) n \<noteq> None \<Longrightarrow> map_of (loadedModels s') n \<noteq> None"
      and "\<And>c cable'. map_of (cables s') c = Some cable' \<Longrightarrow>
             \<exists>cable. map_of (cables s) c = Some cable
                    \<and> source cable' = source cable \<and> target cable' = target cable"
  shows "cablesReferToLoadedModels s'"
  unfolding cablesReferToLoadedModels_iff
proof (intro allI impI)
  fix c cable'
  assume "map_of (cables s') c = Some cable'"
  from assms(3) [OF this] obtain cable where
    c: "map_of (cables s) c = Some cable" "source cable' = source cable"
       "target cable' = target cable" by blast
  from assms(1) c(1) have "cableEndsLoaded (loadedModels s) cable"
    by (simp add: cablesReferToLoadedModels_iff)
  then show "cableEndsLoaded (loadedModels s') cable'"
    using c(2,3) assms(2) by (simp add: cableEndsLoaded_def)
qed

lemma updateCableVisualsForPort_cable:
  assumes "map_of (cables (updateCableVisualsForPort m p s)) c = Some cable'"
  shows "\<exists>cable. map_of (cables s) c = Some cable
           \<and> source cable' = source cable \<and> target cable' = target cable"
  using assms by (auto simp: cables_updateCableVisualsForPort updateCableVisual_frame)

lemma setPortState_loaded:
  assumes "setPortState m p st b s = Inr s'" and "map_of (loadedModels s) n \<noteq> None"
  shows "map_of (loadedModels s') n \<noteq> None"
  using assms
  by (auto simp: setPortState_def getMember_def update_conv'
        split: option.splits member.splits if_splits)

lemma setPortState_cable:
  assumes "setPortState m p st b s = Inr s'" and "map_of (cables s') c = Some cable'"
  shows "\<exists>cable. map_of (cables s) c = Some cable
           \<and> source cable' = source cable \<and> target cable' = target cable"
proof -
  from assms(1) have "s' = s \<or> (\<exists>s1. s' = updateCableVisualsForPort m p s1 \<and> cables s1 = cables s)"
    by (auto simp: setPortState_def getMember_def split: option.splits member.splits if_splits)
  then show ?thesis
  proof
    assume "s' = s"
    with assms(2) show ?thesis by simp
  next
    assume "\<exists>s1. s' = updateCableVisualsForPort m p s1 \<and> cables s1 = cables s"
    then obtain s1 where s1: "s' = updateCableVisualsForPort m p s1" "cables s1 = cables s"
      by blast
    from assms(2) s1 updateCableVisualsForPort_cable [of m p s1 c cable'] show ?thesis by simp
  qed
qed

lemma setPortState_keeps_invariant:
  assumes "cablesReferToLoadedModels s" and "setPortState m p st b s = Inr s'"
  shows "cablesReferToLoadedModels s'"
proof (rule invariant_carried [OF assms(1)])
  fix n
  assume "map_of (loadedModels s) n \<noteq> None"
  then show "map_of (loadedModels s') n \<noteq> None"
    by (rule setPortState_loaded [OF assms(2)])
next
  fix c cable'
  assume "map_of (cables s') c = Some cable'"
  then show "\<exists>cable. map_of (cables s) c = Some cable
           \<and> source cable' = source cable \<and> target cable' = target cable"
    by (rule setPortState_cable [OF assms(2)])
qed

lemma updateScene_loaded:
  "map_of (loadedModels (updateScene now s)) n \<noteq> None \<longleftrightarrow> map_of (loadedModels s) n \<noteq> None"
  by (simp add: updateScene_def Let_def updateBlinkingPorts_def map_of_map_value)

lemma updateCablePosition_ends:
  "source (updateCablePosition loaded cable) = source cable
   \<and> target (updateCablePosition loaded cable) = target cable"
  by (simp add: updateCablePosition_def Let_def split: option.splits)

lemma updateScene_cable:
  assumes "map_of (cables (updateScene now s)) c = Some cable'"
  shows "\<exists>cable. map_of (cables s) c = Some cable
           \<and> source cable' = source cable \<and> target cable' = target cable"
  using assms
  by (auto simp: updateScene_def Let_def updateBlinkingPorts_def map_of_map_value
        updateCablePosition_ends)

lemma updateScene_keeps_invariant:
  assumes "cablesReferToLoadedModels s"
  shows "cablesReferToLoadedModels (updateScene now s)"
proof (rule invariant_carried [OF assms])
  fix n
  assume "map_of (loadedModels s) n \<noteq> None"
  then show "map_of (loadedModels (updateScene now s)) n \<noteq> None"
    using updateScene_loaded [of now s n] by blast
next
  fix c cable'
  assume "map_of (cables (updateScene now s)) c = Some cable'"
  then show "\<exists>cable. map_of (cables s) c = Some cable
           \<and> source cable' = source cable \<and> target cable' = target cable"
    by (rule updateScene_cable)
qed


lemma connectCable_keeps_invariant:
  assumes "cablesReferToLoadedModels s"
  shows "cablesReferToLoadedModels (connectCable loaded url cid src tgt s)"
proof (cases "connectCable_start url cid src tgt s")
  case None
  then show ?thesis using assms by (simp add: connectCable_def)
next
  case (Some k)
  then have ends: "map_of (loadedModels s) (modelId src) \<noteq> None"
      "map_of (loadedModels s) (modelId tgt) \<noteq> None"
    and k: "pendingSource k = src" "pendingTarget k = tgt" "pendingCableId k = cid"
    by (auto simp: connectCable_start_def split: option.splits)
  show ?thesis
  proof (cases loaded)
    case None
    then show ?thesis using assms Some by (simp add: connectCable_def connectCable_resume_def)
  next
    case (Some gltf)
    let ?s1 = "s\<lparr>scene := scene s @ [CableObject (nextObject s) cid],
                   cables := AList.update cid
                     \<lparr>id_ci = cid,
                      object_ci = \<lparr>meshId = nextObject s, meshName = cid,
                        height = vlength (subVectors (worldPosition (targetAttachPoint k))
                                   (worldPosition (sourceAttachPoint k))),
                        position = addVector (worldPosition (sourceAttachPoint k))
                          (multiplyScalar (subVectors (worldPosition (targetAttachPoint k))
                                   (worldPosition (sourceAttachPoint k))) 0.5),
                        axis = normalize
                          (multiplyScalar (subVectors (worldPosition (targetAttachPoint k))
                                   (worldPosition (sourceAttachPoint k))) 0.5),
                        material = \<lparr>color = Hex 0x555555, emissive = Hex 0x000000\<rparr>\<rparr>,
                      source = src, target = tgt\<rparr> (cables s),
                   nextObject := Suc (nextObject s)\<rparr>"
    have eq: "connectCable loaded url cid src tgt s
                = updateCableVisualsForPort (modelId src)
                    (replace (portAttachName src) ''_Attach'' ''_Indicator'') ?s1"
      using Some \<open>connectCable_start url cid src tgt s = Some k\<close> k
      by (simp add: connectCable_def connectCable_resume_def Let_def)
    have inv1: "cablesReferToLoadedModels ?s1"
      using assms ends
      by (auto simp: cablesReferToLoadedModels_iff update_conv' cableEndsLoaded_def
            split: if_splits)
    show ?thesis
      unfolding eq
    proof (rule invariant_carried [OF inv1])
      fix n
      assume "map_of (loadedModels ?s1) n \<noteq> None"
      then show "map_of (loadedModels (updateCableVisualsForPort (modelId src)
                    (replace (portAttachName src) ''_Attach'' ''_Indicator'') ?s1)) n \<noteq> None"
        by simp
    next
      fix c cable'
      assume "map_of (cables (updateCableVisualsForPort (modelId src)
                    (replace (portAttachName src) ''_Attach'' ''_Indicator'') ?s1)) c = Some cable'"
      then show "\<exists>cable. map_of (cables ?s1) c = Some cable
           \<and> source cable' = source cable \<and> target cable' = target cable"
        by (rule updateCableVisualsForPort_cable)
    qed
  qed
qed

text \<open>The loop of \<open>removeModelFromScene\<close> over the cable ids.\<close>

lemma disconnect_loop_lookup:
  assumes "map_of (cables (fold (\<lambda>cableId st.
              (case map_of (cables st) cableId of
                 None \<Rightarrow> st
               | Some cable \<Rightarrow> if R cable then disconnectCable cableId st else st)) ks s)) c
           = Some cable"
  shows "map_of (cables s) c = Some cable"
  using assms
proof (induction ks arbitrary: s)
  case Nil
  then show ?case by simp
next
  case (Cons k ks)
  let ?step = "\<lambda>cableId st.
              (case map_of (cables st) cableId of
                 None \<Rightarrow> st
               | Some cable \<Rightarrow> if R cable then disconnectCable cableId st else st)"
  from Cons.prems have "map_of (cables (fold ?step ks (?step k s))) c = Some cable" by simp
  from Cons.IH [OF this] have "map_of (cables (?step k s)) c = Some cable" .
  then show ?case
    by (auto split: option.splits if_splits dest: disconnectCable_lookup)
qed

lemma disconnect_loop_loaded:
  "loadedModels (fold (\<lambda>cableId st.
              (case map_of (cables st) cableId of
                 None \<Rightarrow> st
               | Some cable \<Rightarrow> if R cable then disconnectCable cableId st else st)) ks s)
   = loadedModels s"
  by (induction ks arbitrary: s) (auto split: option.splits)

lemma disconnect_loop_detached:
  assumes "c \<in> set ks"
      and "map_of (cables (fold (\<lambda>cableId st.
              (case map_of (cables st) cableId of
                 None \<Rightarrow> st
               | Some cable \<Rightarrow> if R cable then disconnectCable cableId st else st)) ks s)) c
           = Some cable"
  shows "\<not> R cable"
  using assms
proof (induction ks arbitrary: s)
  case Nil
  then show ?case by simp
next
  case (Cons k ks)
  let ?step = "\<lambda>cableId st.
              (case map_of (cables st) cableId of
                 None \<Rightarrow> st
               | Some cable \<Rightarrow> if R cable then disconnectCable cableId st else st)"
  from Cons.prems(2) have f: "map_of (cables (fold ?step ks (?step k s))) c = Some cable"
    by simp
  show ?case
  proof (cases "c = k")
    case True
    from disconnect_loop_lookup [OF f] have "map_of (cables (?step k s)) k = Some cable"
      using True by simp
    then show ?thesis
      by (auto split: option.splits if_splits simp: disconnectCable_gone)
  next
    case False
    with Cons.prems(1) have "c \<in> set ks" by simp
    from Cons.IH [OF this f] show ?thesis .
  qed
qed

lemma removeModelFromScene_keeps_invariant:
  assumes "cablesReferToLoadedModels s"
  shows "cablesReferToLoadedModels (removeModelFromScene modelInstanceId s)"
proof (cases "map_of (loadedModels s) modelInstanceId")
  case None
  then show ?thesis using assms by (simp add: removeModelFromScene_def)
next
  case (Some modelData)
  let ?R = "\<lambda>cable. modelId (source cable) = modelInstanceId
                    \<or> modelId (target cable) = modelInstanceId"
  let ?s1 = "fold (\<lambda>cableId st.
              (case map_of (cables st) cableId of
                 None \<Rightarrow> st
               | Some cable \<Rightarrow> if ?R cable then disconnectCable cableId st else st))
             (map fst (cables s)) s"
  have eq: "removeModelFromScene modelInstanceId s
              = ?s1\<lparr>scene := sceneRemove (object_lm modelData) (scene ?s1),
                     loadedModels := AList.delete modelInstanceId (loadedModels ?s1)\<rparr>"
    using Some by (simp add: removeModelFromScene_def Let_def)
  show ?thesis
    unfolding eq cablesReferToLoadedModels_iff
  proof (intro allI impI)
    fix c cable
    assume "map_of (cables (?s1\<lparr>scene := sceneRemove (object_lm modelData) (scene ?s1),
                     loadedModels := AList.delete modelInstanceId (loadedModels ?s1)\<rparr>)) c
            = Some cable"
    then have l1: "map_of (cables ?s1) c = Some cable" by simp
    from disconnect_loop_lookup [where R = ?R, OF l1]
    have l0: "map_of (cables s) c = Some cable" .
    then have "c \<in> set (map fst (cables s))"
      by (metis map_of_SomeD image_eqI fst_conv set_map)
    from disconnect_loop_detached [where R = ?R, OF this l1]
    have nr: "modelId (source cable) \<noteq> modelInstanceId"
             "modelId (target cable) \<noteq> modelInstanceId" by auto
    from assms l0 have "cableEndsLoaded (loadedModels s) cable"
      by (simp add: cablesReferToLoadedModels_iff)
    then show "cableEndsLoaded
        (loadedModels (?s1\<lparr>scene := sceneRemove (object_lm modelData) (scene ?s1),
                     loadedModels := AList.delete modelInstanceId (loadedModels ?s1)\<rparr>)) cable"
      using nr by (simp add: cableEndsLoaded_def disconnect_loop_loaded [where R = ?R] delete_conv')
  qed
qed


text \<open>The traversal of a loaded asset, whether it ends or raises.\<close>

lemma traverseChild_state:
  assumes "traverseChild modelInstanceId child (modelEntry, s) = Inr (e1, s1)"
  shows "s1 = s \<or> setPortState modelInstanceId (nodeName child) ''inactive'' False s = Inr s1"
  using assms
  by (auto simp: traverseChild_def split: option.splits NodeMaterial.splits sum.splits if_splits)

lemma traverse_loaded:
  assumes "map_of (loadedModels s) n \<noteq> None"
  shows "map_of (loadedModels (traversedState (traverse mid nodes (modelEntry, s)))) n \<noteq> None"
  using assms
proof (induction nodes arbitrary: modelEntry s)
  case Nil
  then show ?case by (simp add: traversedState_def)
next
  case (Cons child nodes)
  show ?case
  proof (cases "traverseChild mid child (modelEntry, s)")
    case (Inl e)
    then show ?thesis using Cons.prems by (simp add: traversedState_def)
  next
    case (Inr acc1)
    obtain e1 s1 where acc1: "acc1 = (e1, s1)" by (cases acc1)
    from traverseChild_state [of mid child modelEntry s e1 s1] Inr acc1
    have "s1 = s \<or> setPortState mid (nodeName child) ''inactive'' False s = Inr s1" by simp
    then have "map_of (loadedModels s1) n \<noteq> None"
      using Cons.prems setPortState_loaded by blast
    from Cons.IH [OF this, of e1] Inr acc1 show ?thesis by simp
  qed
qed

lemma traverse_cable:
  assumes "map_of (cables (traversedState (traverse mid nodes (modelEntry, s)))) c = Some cable'"
  shows "\<exists>cable. map_of (cables s) c = Some cable
           \<and> source cable' = source cable \<and> target cable' = target cable"
  using assms
proof (induction nodes arbitrary: modelEntry s)
  case Nil
  then show ?case by (simp add: traversedState_def)
next
  case (Cons child nodes)
  show ?case
  proof (cases "traverseChild mid child (modelEntry, s)")
    case (Inl e)
    then show ?thesis using Cons.prems by (simp add: traversedState_def)
  next
    case (Inr acc1)
    obtain e1 s1 where acc1: "acc1 = (e1, s1)" by (cases acc1)
    from Cons.prems Inr acc1
    have "map_of (cables (traversedState (traverse mid nodes (e1, s1)))) c = Some cable'"
      by simp
    from Cons.IH [OF this] obtain cable1 where
      c1: "map_of (cables s1) c = Some cable1" "source cable' = source cable1"
          "target cable' = target cable1" by blast
    from traverseChild_state [of mid child modelEntry s e1 s1] Inr acc1
    have "s1 = s \<or> setPortState mid (nodeName child) ''inactive'' False s = Inr s1" by simp
    then show ?thesis
    proof
      assume "s1 = s"
      with c1 show ?thesis by auto
    next
      assume "setPortState mid (nodeName child) ''inactive'' False s = Inr s1"
      from setPortState_cable [OF this c1(1)]
      obtain cable where "map_of (cables s) c = Some cable" "source cable1 = source cable"
        "target cable1 = target cable" by auto
      with c1 show ?thesis by auto
    qed
  qed
qed

lemma addModelToScene_resume_keeps_invariant:
  assumes "cablesReferToLoadedModels s"
  shows "cablesReferToLoadedModels (addModelToScene_resume loaded k s)"
proof (cases loaded)
  case None
  then show ?thesis using assms by (simp add: addModelToScene_resume_def)
next
  case (Some gltf)
  let ?s1 = "s\<lparr>scene := scene s @
                 [ModelRoot (nextObject s) (pendingId k) (pendingPosition k) (pendingRotation k)],
               nextObject := Suc (nextObject s)\<rparr>"
  let ?e = "\<lparr>id_lm = pendingId k, object_lm = nextObject s,
             portIndicators = [], portAttachPoints = []\<rparr>"
  let ?nodes = "\<lparr>nodeName = pendingId k, nodeMesh = None,
                 nodeWorldPosition =
                   (case pendingPosition k of None \<Rightarrow> rootWorldPosition gltf | Some p \<Rightarrow> p)\<rparr>
                # descendants gltf"
  let ?r = "traverse (pendingId k) ?nodes (?e, ?s1)"
  let ?s' = "addModelToScene_resume loaded k s"
  have eq: "?s' = (case ?r of Inl (e, s2) \<Rightarrow> s2
                   | Inr (modelEntry', s2) \<Rightarrow>
                       s2\<lparr>loadedModels :=
                            AList.update (pendingId k) modelEntry' (loadedModels s2)\<rparr>)"
    using Some by (simp add: addModelToScene_resume_def Let_def del: traverse.simps)
  have cab: "cables ?s' = cables (traversedState ?r)"
    unfolding eq by (simp add: traversedState_def split: sum.splits prod.splits)
  have lm: "map_of (loadedModels (traversedState ?r)) n \<noteq> None
              \<Longrightarrow> map_of (loadedModels ?s') n \<noteq> None" for n
    unfolding eq
    by (auto simp: traversedState_def update_conv' split: sum.splits prod.splits)
  have inv1: "cablesReferToLoadedModels ?s1"
    using assms by (simp add: cablesReferToLoadedModels_iff)
  show ?thesis
  proof (rule invariant_carried [OF inv1])
    fix n
    assume "map_of (loadedModels ?s1) n \<noteq> None"
    from traverse_loaded [OF this, of "pendingId k" ?nodes ?e]
    show "map_of (loadedModels ?s') n \<noteq> None" by (rule lm)
  next
    fix c cable'
    assume "map_of (cables ?s') c = Some cable'"
    then have "map_of (cables (traversedState ?r)) c = Some cable'" by (simp only: cab)
    from traverse_cable [OF this]
    show "\<exists>cable. map_of (cables ?s1) c = Some cable
           \<and> source cable' = source cable \<and> target cable' = target cable" by simp
  qed
qed

lemma updateCableVisualsForPort_keeps_invariant:
  assumes "cablesReferToLoadedModels s"
  shows "cablesReferToLoadedModels (updateCableVisualsForPort m p s)"
proof (rule invariant_carried [OF assms])
  fix n
  assume "map_of (loadedModels s) n \<noteq> None"
  then show "map_of (loadedModels (updateCableVisualsForPort m p s)) n \<noteq> None" by simp
next
  fix c cable'
  assume "map_of (cables (updateCableVisualsForPort m p s)) c = Some cable'"
  then show "\<exists>cable. map_of (cables s) c = Some cable
           \<and> source cable' = source cable \<and> target cable' = target cable"
    by (rule updateCableVisualsForPort_cable)
qed

lemma addModelToScene_keeps_invariant:
  assumes "cablesReferToLoadedModels s"
  shows "cablesReferToLoadedModels (addModelToScene loaded modelUrl modelInstanceId pos rot s)"
  using assms
  by (simp add: addModelToScene_def addModelToScene_resume_keeps_invariant split: option.splits)

end
